theory Spec2Isabelle
  imports Main "HOL-Library.Word" "HOL-Library.AList"
begin

unbundle bit_operations_syntax

section \<open>Security-flag decoder (class NM80211ApSecurityFlags)\<close>

text \<open>
  The flag constants of \<^verbatim>\<open>NM80211ApSecurityFlags\<close>. The source combines them with
  JavaScript's \<^verbatim>\<open>|=\<close>, which works on 32-bit integers, so a mask is a \<open>32 word\<close>.
\<close>

definition NM_802_11_AP_SEC_NONE :: "32 word" where
  "NM_802_11_AP_SEC_NONE = 0x00000000"

definition NM_802_11_AP_SEC_PAIR_WEP40 :: "32 word" where
  "NM_802_11_AP_SEC_PAIR_WEP40 = 0x00000001"

definition NM_802_11_AP_SEC_PAIR_WEP104 :: "32 word" where
  "NM_802_11_AP_SEC_PAIR_WEP104 = 0x00000002"

definition NM_802_11_AP_SEC_PAIR_TKIP :: "32 word" where
  "NM_802_11_AP_SEC_PAIR_TKIP = 0x00000004"

definition NM_802_11_AP_SEC_PAIR_CCMP :: "32 word" where
  "NM_802_11_AP_SEC_PAIR_CCMP = 0x00000008"

definition NM_802_11_AP_SEC_GROUP_WEP40 :: "32 word" where
  "NM_802_11_AP_SEC_GROUP_WEP40 = 0x00000010"

definition NM_802_11_AP_SEC_GROUP_WEP104 :: "32 word" where
  "NM_802_11_AP_SEC_GROUP_WEP104 = 0x00000020"

definition NM_802_11_AP_SEC_GROUP_TKIP :: "32 word" where
  "NM_802_11_AP_SEC_GROUP_TKIP = 0x00000040"

definition NM_802_11_AP_SEC_GROUP_CCMP :: "32 word" where
  "NM_802_11_AP_SEC_GROUP_CCMP = 0x00000080"

definition NM_802_11_AP_SEC_KEY_MGMT_PSK :: "32 word" where
  "NM_802_11_AP_SEC_KEY_MGMT_PSK = 0x00000100"

definition NM_802_11_AP_SEC_KEY_MGMT_802_1X :: "32 word" where
  "NM_802_11_AP_SEC_KEY_MGMT_802_1X = 0x00000200"

definition NM_802_11_AP_SEC_KEY_MGMT_SAE :: "32 word" where
  "NM_802_11_AP_SEC_KEY_MGMT_SAE = 0x00000400"

definition NM_802_11_AP_SEC_KEY_MGMT_OWE :: "32 word" where
  "NM_802_11_AP_SEC_KEY_MGMT_OWE = 0x00000800"

definition NM_802_11_AP_SEC_KEY_MGMT_OWE_TM :: "32 word" where
  "NM_802_11_AP_SEC_KEY_MGMT_OWE_TM = 0x00001000"

definition NM_802_11_AP_SEC_KEY_MGMT_EAP_SUITE_B_192 :: "32 word" where
  "NM_802_11_AP_SEC_KEY_MGMT_EAP_SUITE_B_192 = 0x00002000"

text \<open>The three \<^verbatim>\<open>switch\<close> statements; the \<^verbatim>\<open>default\<close> branch is the last \<open>else\<close>.\<close>

definition pairToFlags :: "string \<Rightarrow> 32 word" where
  "pairToFlags str =
     (if str = ''wep40'' then NM_802_11_AP_SEC_PAIR_WEP40
      else if str = ''wep104'' then NM_802_11_AP_SEC_PAIR_WEP104
      else if str = ''tkip'' then NM_802_11_AP_SEC_PAIR_TKIP
      else if str = ''ccmp'' then NM_802_11_AP_SEC_PAIR_CCMP
      else NM_802_11_AP_SEC_NONE)"

definition groupToFlags :: "string \<Rightarrow> 32 word" where
  "groupToFlags str =
     (if str = ''wep40'' then NM_802_11_AP_SEC_GROUP_WEP40
      else if str = ''wep104'' then NM_802_11_AP_SEC_GROUP_WEP104
      else if str = ''tkip'' then NM_802_11_AP_SEC_GROUP_TKIP
      else if str = ''ccmp'' then NM_802_11_AP_SEC_GROUP_CCMP
      else NM_802_11_AP_SEC_NONE)"

definition keyMgmtToFlags :: "string \<Rightarrow> 32 word" where
  "keyMgmtToFlags str =
     (if str = ''wpa-psk'' then NM_802_11_AP_SEC_KEY_MGMT_PSK
      else if str = ''wpa-eap'' then NM_802_11_AP_SEC_KEY_MGMT_802_1X
      else if str = ''sae'' then NM_802_11_AP_SEC_KEY_MGMT_SAE
      else if str = ''owe'' then NM_802_11_AP_SEC_KEY_MGMT_OWE
      else if str = ''owe-tm'' then NM_802_11_AP_SEC_KEY_MGMT_OWE_TM
      else if str = ''wpa-eap-suite-b-192'' then NM_802_11_AP_SEC_KEY_MGMT_EAP_SUITE_B_192
      else NM_802_11_AP_SEC_NONE)"

text \<open>
  The security dictionary that wpa_supplicant sends: each of the three keys is either
  absent (\<open>None\<close>, for which the source's \<^verbatim>\<open>if (security.KeyMgmt)\<close> is false) or a
  variant object whose \<^verbatim>\<open>.value\<close> is the token list (for \<^verbatim>\<open>Group\<close>, the one token).
\<close>

record security_dict =
  KeyMgmt :: "string list option"
  Pairwise :: "string list option"
  Group :: "string option"

definition empty_dict :: security_dict where
  "empty_dict = \<lparr>KeyMgmt = None, Pairwise = None, Group = None\<rparr>"

text \<open>\<^verbatim>\<open>items.forEach(item => { flags |= f(item) })\<close>, from left to right.\<close>

definition or_each :: "(string \<Rightarrow> 32 word) \<Rightarrow> string list \<Rightarrow> 32 word \<Rightarrow> 32 word" where
  "or_each f items flags = foldl (\<lambda>acc item. acc OR f item) flags items"

definition securityFromDict :: "security_dict \<Rightarrow> 32 word" where
  "securityFromDict security =
     (let flags = NM_802_11_AP_SEC_NONE;
          flags = (case KeyMgmt security of
                     Some keyMgmtItems \<Rightarrow> or_each keyMgmtToFlags keyMgmtItems flags
                   | None \<Rightarrow> flags);
          flags = (case Pairwise security of
                     Some pairwiseItems \<Rightarrow> or_each pairToFlags pairwiseItems flags
                   | None \<Rightarrow> flags);
          flags = (case Group security of
                     Some groupItem \<Rightarrow> flags OR groupToFlags groupItem
                   | None \<Rightarrow> flags)
      in flags)"


section \<open>Values of the JavaScript run time\<close>

text \<open>
  A thrown value. \<open>TypeError\<close> is what reading a property of \<^verbatim>\<open>undefined\<close> throws;
  \<open>Thrown\<close> is any other rejection (a D-Bus call that fails, a file that cannot be read),
  with the text that \<^verbatim>\<open>`${error}`\<close> renders for it.
\<close>

datatype js_error = TypeError string | Thrown string

fun error_text :: "js_error \<Rightarrow> string" where
  "error_text (TypeError msg) = ''TypeError: '' @ msg"
| "error_text (Thrown msg) = msg"

text \<open>
  A JavaScript number that holds an integer or \<^verbatim>\<open>NaN\<close>. The integers are exact: the
  model is the code for magnitudes up to \<open>2 ^ 53\<close>, which seconds of uptime and the
  32-bit \<^verbatim>\<open>Age\<close> of wpa_supplicant stay far below.
\<close>

datatype number = Num int | NaN

fun plus_number :: "number \<Rightarrow> int \<Rightarrow> number" where
  "plus_number (Num u) a = Num (u + a)"
| "plus_number NaN a = NaN"

subsection \<open>\<^verbatim>\<open>parseInt(data.split(' ')[0])\<close>\<close>

definition StrWhiteSpaceChar :: "char \<Rightarrow> bool" where
  "StrWhiteSpaceChar c = (c \<in> set [CHR 0x09, CHR 0x0A, CHR 0x0B, CHR 0x0C, CHR 0x0D, CHR '' ''])"

text \<open>The value of a digit or letter; 36, above every radix, for any other character.\<close>

definition digit_of :: "char \<Rightarrow> nat" where
  "digit_of c =
     (let n = (of_char c :: nat)
      in if 48 \<le> n \<and> n \<le> 57 then n - 48
         else if 97 \<le> n \<and> n \<le> 122 then n - 87
         else if 65 \<le> n \<and> n \<le> 90 then n - 55
         else 36)"

definition digits_value :: "nat \<Rightarrow> string \<Rightarrow> int" where
  "digits_value R Z = int (foldl (\<lambda>acc c. acc * R + digit_of c) 0 Z)"

fun strip_sign :: "string \<Rightarrow> int \<times> string" where
  "strip_sign (c # cs) =
     (if c = CHR ''-'' then (-1, cs) else if c = CHR ''+'' then (1, cs) else (1, c # cs))"
| "strip_sign [] = (1, [])"

fun strip_prefix_0x :: "string \<Rightarrow> nat \<times> string" where
  "strip_prefix_0x (a # b # cs) =
     (if a = CHR ''0'' \<and> (b = CHR ''x'' \<or> b = CHR ''X'') then (16, cs) else (10, a # b # cs))"
| "strip_prefix_0x cs = (10, cs)"

text \<open>
  \<^verbatim>\<open>parseInt\<close> with no radix argument: leading white space is skipped, then a sign,
  then a \<^verbatim>\<open>0x\<close> prefix selects radix 16; the longest prefix of digits is the value, and
  no digit at all gives \<^verbatim>\<open>NaN\<close>. Whatever follows the digits is ignored. Characters
  are bytes here, so the white space is that of ASCII.
\<close>

definition parseInt :: "string \<Rightarrow> number" where
  "parseInt str =
     (let S = dropWhile StrWhiteSpaceChar str;
          (sign, S) = strip_sign S;
          (R, S) = strip_prefix_0x S;
          Z = takeWhile (\<lambda>c. digit_of c < R) S
      in if Z = [] then NaN else Num (sign * digits_value R Z))"

text \<open>\<^verbatim>\<open>data.split(' ')[0]\<close>: the text before the first space (all of it when there is none).\<close>

definition split_first :: "string \<Rightarrow> string" where
  "split_first data = takeWhile (\<lambda>c. c \<noteq> CHR '' '') data"

section \<open>The device state (class WifiDevice)\<close>

text \<open>
  Modelled from the spec: the type \<^verbatim>\<open>AccessPointProperties\<close> of \<^verbatim>\<open>dbus-types\<close> is
  not part of the sources; the record has the attributes that section 3 of the
  specification lists. Each field stands for the \<^verbatim>\<open>.value\<close> of the variant stored under
  that name. \<^verbatim>\<open>RawAccessPointProperties\<close> is the same record with the SSID as bytes.
\<close>

record 'ssid ap_properties =
  HwAddress :: string
  Ssid :: 'ssid
  Frequency :: int
  Strength :: int
  WpaFlags :: "32 word"
  RsnFlags :: "32 word"
  LastSeen :: number

type_synonym RawAccessPointProperties = "nat list ap_properties"
type_synonym AccessPointProperties = "string ap_properties"

text \<open>
  Modelled from the spec: \<^verbatim>\<open>byteArrayToString\<close> of \<^verbatim>\<open>util\<close> is not part of the
  sources; the specification says that it decodes the raw byte sequence to text.
\<close>

definition byteArrayToString :: "nat list \<Rightarrow> string" where
  "byteArrayToString bytes = map char_of bytes"

text \<open>
  \<^verbatim>\<open>{...raw, Ssid: {...raw.Ssid, value: byteArrayToString(raw.Ssid.value)}}\<close>: a new record
  object with the SSID decoded and every other field copied.
\<close>

definition decode_properties :: "RawAccessPointProperties \<Rightarrow> AccessPointProperties" where
  "decode_properties raw =
     \<lparr>HwAddress = HwAddress raw, Ssid = byteArrayToString (Ssid raw),
      Frequency = Frequency raw, Strength = Strength raw, WpaFlags = WpaFlags raw,
      RsnFlags = RsnFlags raw, LastSeen = LastSeen raw\<rparr>"

text \<open>A proxy of the interface \<^verbatim>\<open>fi.w1.wpa_supplicant1.BSS\<close> of the object at a path.\<close>

datatype ClientInterface = ClientInterface string

text \<open>
  The fields of the class, without their leading underscore. Objects that the code shares
  and mutates live in a store:
  \<^item> \<open>map_heap\<close> holds the \<^verbatim>\<open>AccessPointMap\<close> objects by address; such an object maps a
    path to the address of a record object. An address never allocated holds the empty
    object and is never read.
  \<^item> \<open>ap_heap\<close> holds the record objects by address.
  \<^item> \<open>accessPoints\<close> is the reference stored in \<^verbatim>\<open>this._accessPoints\<close>.
  \<^item> \<open>accessPointsSubject\<close> is the \<^verbatim>\<open>BehaviorSubject\<close>: the references it was given, the
    seed of the constructor first, each \<^verbatim>\<open>next\<close> appended; its current value is the last.
  \<^item> \<open>live_listeners\<close> holds the subscriptions that \<^verbatim>\<open>listenSignal\<close> made for
    \<^verbatim>\<open>PropertiesChanged\<close> and that were not unsubscribed: the interface listened on and
    the \<^verbatim>\<open>bssid\<close> that the handler closes over.
  \<^item> \<open>bssInterfaces\<close> is an association list, because the constructor iterates over the
    keys of the \<^verbatim>\<open>Map\<close> in insertion order.
  \<^item> \<open>console\<close> collects the lines written with \<^verbatim>\<open>console.error\<close>.
\<close>

record WifiDevice =
  accessPoints :: nat
  map_heap :: "nat \<Rightarrow> (string \<rightharpoonup> nat)"
  ap_heap :: "nat \<rightharpoonup> AccessPointProperties"
  next_addr :: nat
  accessPointsSubject :: "nat list"
  bssListeners :: "string \<rightharpoonup> nat"
  live_listeners :: "nat \<rightharpoonup> ClientInterface \<times> string"
  next_listener :: nat
  bssPathMap :: "string \<rightharpoonup> string"
  accessPointPathMap :: "string \<rightharpoonup> string"
  bssInterfaces :: "(string \<times> ClientInterface) list"
  console :: "string list"

definition console_error :: "string \<Rightarrow> WifiDevice \<Rightarrow> WifiDevice" where
  "console_error line s = s\<lparr>console := console s @ [line]\<rparr>"

text \<open>The getter \<^verbatim>\<open>accessPoints\<close> returns the reference in the field.\<close>

definition get_accessPoints :: "WifiDevice \<Rightarrow> nat" where
  "get_accessPoints s = accessPoints s"

text \<open>The current value of the \<^verbatim>\<open>BehaviorSubject\<close>, which a new subscriber of
  \<^verbatim>\<open>accessPoints$\<close> receives: the last reference it was given.\<close>

definition subject_value :: "WifiDevice \<Rightarrow> nat option" where
  "subject_value s =
     (if accessPointsSubject s = [] then None else Some (last (accessPointsSubject s)))"

text \<open>What a holder of the reference \<open>a\<close> reads: the record behind every path.\<close>

definition snapshot_view :: "WifiDevice \<Rightarrow> nat \<Rightarrow> (string \<rightharpoonup> AccessPointProperties)" where
  "snapshot_view s a = (\<lambda>p. case map_heap s a p of None \<Rightarrow> None | Some r \<Rightarrow> ap_heap s r)"

subsection \<open>\<^verbatim>\<open>_listenForAccessPoints\<close>\<close>

text \<open>
  The handler of \<^verbatim>\<open>AccessPointAdded\<close>. \<open>fetched\<close> is what \<^verbatim>\<open>objectInterface\<close> and
  \<^verbatim>\<open>getAllProperties\<close> gave for the path; a rejection is caught and logged. The handler
  touches the state only after both calls have returned, in one synchronous run.
\<close>

definition on_AccessPointAdded ::
  "string \<Rightarrow> js_error + RawAccessPointProperties \<Rightarrow> WifiDevice \<Rightarrow> WifiDevice" where
  "on_AccessPointAdded apPath fetched s =
     (case fetched of
        Inl error \<Rightarrow> console_error (''ERROR: '' @ error_text error) s
      | Inr rawAccessPointProperties \<Rightarrow>
          let accessPointProperties = decode_properties rawAccessPointProperties;
              bssid = HwAddress rawAccessPointProperties;
              r = next_addr s;
              m = Suc r
          in s\<lparr>accessPointPathMap := ((accessPointPathMap s)(bssid \<mapsto> apPath))(apPath \<mapsto> bssid),
               ap_heap := (ap_heap s)(r \<mapsto> accessPointProperties),
               map_heap := (map_heap s)(m := (map_heap s (accessPoints s))(apPath \<mapsto> r)),
               accessPoints := m,
               accessPointsSubject := accessPointsSubject s @ [m],
               next_addr := Suc m\<rparr>)"

text \<open>The handler of \<^verbatim>\<open>AccessPointRemoved\<close>.\<close>

definition on_AccessPointRemoved :: "string \<Rightarrow> WifiDevice \<Rightarrow> WifiDevice" where
  "on_AccessPointRemoved apPath s =
     (let filteredAccessPoints = (map_heap s (accessPoints s))(apPath := None);
          bssid = accessPointPathMap s apPath;
          pathMap = (accessPointPathMap s)(apPath := None);
          pathMap = (case bssid of Some b \<Rightarrow> pathMap(b := None) | None \<Rightarrow> pathMap);
          m = next_addr s
      in s\<lparr>accessPointPathMap := pathMap,
           map_heap := (map_heap s)(m := filteredAccessPoints),
           accessPoints := m,
           accessPointsSubject := accessPointsSubject s @ [m],
           next_addr := Suc m\<rparr>)"

subsection \<open>\<^verbatim>\<open>_listenForBss\<close> and \<^verbatim>\<open>_listenForBssPropertyChanges\<close>\<close>

text \<open>
  Modelled from the spec: \<^verbatim>\<open>listenSignal\<close> of \<^verbatim>\<open>BaseDevice\<close> is not part of the
  sources. It subscribes a handler to a signal of an interface and returns the
  subscription, whose \<^verbatim>\<open>unsubscribe\<close> cancels it.
\<close>

definition listenSignal :: "ClientInterface \<Rightarrow> string \<Rightarrow> WifiDevice \<Rightarrow> nat \<times> WifiDevice" where
  "listenSignal iface bssid s =
     (next_listener s,
      s\<lparr>live_listeners := (live_listeners s)(next_listener s \<mapsto> (iface, bssid)),
        next_listener := Suc (next_listener s)\<rparr>)"

definition unsubscribe :: "nat \<Rightarrow> WifiDevice \<Rightarrow> WifiDevice" where
  "unsubscribe listenerRef s = s\<lparr>live_listeners := (live_listeners s)(listenerRef := None)\<rparr>"

definition listenForBssPropertyChanges :: "string \<Rightarrow> WifiDevice \<Rightarrow> WifiDevice" where
  "listenForBssPropertyChanges bssid s =
     (case map_of (bssInterfaces s) bssid of
        None \<Rightarrow> s
      | Some bssInterface \<Rightarrow>
          let (listenerRef, s) = listenSignal bssInterface bssid s
          in s\<lparr>bssListeners := (bssListeners s)(bssid \<mapsto> listenerRef)\<rparr>)"

text \<open>
  The handler of \<^verbatim>\<open>BSSAdded\<close>. \<open>bssid\<close> is the text that \<^verbatim>\<open>formatMacAddress\<close> made of
  the BSSID in the signal; \<open>proxy\<close> is what \<^verbatim>\<open>getProxyObject\<close> and \<^verbatim>\<open>getInterface\<close> gave.
\<close>

definition on_BSSAdded ::
  "string \<Rightarrow> string \<Rightarrow> js_error + ClientInterface \<Rightarrow> WifiDevice \<Rightarrow> WifiDevice" where
  "on_BSSAdded bssPath bssid proxy s =
     (case proxy of
        Inl error \<Rightarrow> console_error (''BSSAdded signal handler ERROR: '' @ error_text error) s
      | Inr bssInterface \<Rightarrow>
          listenForBssPropertyChanges bssid
            (s\<lparr>bssInterfaces := AList.update bssid bssInterface (bssInterfaces s),
               bssPathMap := ((bssPathMap s)(bssid \<mapsto> bssPath))(bssPath \<mapsto> bssid)\<rparr>))"

text \<open>The handler of \<^verbatim>\<open>BSSRemoved\<close>.\<close>

definition on_BSSRemoved :: "string \<Rightarrow> WifiDevice \<Rightarrow> WifiDevice" where
  "on_BSSRemoved bssPath s =
     (let bssid = bssPathMap s bssPath;
          pathMap = (bssPathMap s)(bssPath := None);
          pathMap = (case bssid of Some b \<Rightarrow> pathMap(b := None) | None \<Rightarrow> pathMap);
          s = s\<lparr>bssPathMap := pathMap\<rparr>
      in case bssListeners s bssPath of
           None \<Rightarrow> s
         | Some listenerRef \<Rightarrow>
             (unsubscribe listenerRef s)\<lparr>bssListeners := (bssListeners s)(bssPath := None)\<rparr>)"

text \<open>
  \<^verbatim>\<open>_getUptime\<close>. \<open>file\<close> is what \<^verbatim>\<open>fs.readFile('/proc/uptime', 'utf8')\<close> gave. A
  failure is logged and thrown again.
\<close>

definition getUptime :: "js_error + string \<Rightarrow> WifiDevice \<Rightarrow> (js_error + number) \<times> WifiDevice" where
  "getUptime file s =
     (case file of
        Inl error \<Rightarrow> (Inl error, console_error (''Error reading uptime: '' @ error_text error) s)
      | Inr data \<Rightarrow> (Inr (parseInt (split_first data)), s))"

text \<open>
  The partial property set of a \<^verbatim>\<open>PropertiesChanged\<close> signal: a field is \<open>None\<close> where
  the source finds \<^verbatim>\<open>undefined\<close>. (\<open>Frequency\<close> is the name of a field of the record of
  an access point already, hence the suffix.)
\<close>

record WpaSupplicantProperties =
  Age :: "int option"
  Frequency_bss :: "int option"
  WPA :: "security_dict option"
  RSN :: "security_dict option"

text \<open>
  \<^verbatim>\<open>props.F.value = v\<close>, where \<open>props\<close> is the result of \<^verbatim>\<open>this._accessPoints[apPath]\<close>:
  \<open>None\<close> is \<^verbatim>\<open>undefined\<close>, and reading \<^verbatim>\<open>props.F\<close> then throws a \<^verbatim>\<open>TypeError\<close>. The
  assignment changes the record object that \<open>props\<close> refers to, in place. (A reference
  always leads to an object; \<open>map_option\<close> only keeps the function total.)
\<close>

definition read_props :: "nat option \<Rightarrow> string \<Rightarrow> js_error + nat" where
  "read_props props field =
     (case props of
        None \<Rightarrow> Inl (TypeError (''Cannot read properties of undefined (reading '' @ field @ '')''))
      | Some r \<Rightarrow> Inr r)"

definition assign_value ::
  "nat \<Rightarrow> (AccessPointProperties \<Rightarrow> AccessPointProperties) \<Rightarrow> WifiDevice \<Rightarrow> WifiDevice" where
  "assign_value r f s = s\<lparr>ap_heap := (ap_heap s)(r := map_option f (ap_heap s r))\<rparr>"

text \<open>
  The four conditional assignments of the handler, each giving the thrown value, if
  any, and the state it leaves. In \<^verbatim>\<open>props.LastSeen.value = (await this._getUptime()) + age\<close>
  the target \<^verbatim>\<open>props.LastSeen\<close> is read before the uptime.
\<close>

definition update_LastSeen ::
  "nat option \<Rightarrow> WpaSupplicantProperties \<Rightarrow> js_error + string \<Rightarrow> WifiDevice
     \<Rightarrow> js_error option \<times> WifiDevice" where
  "update_LastSeen props params file s =
     (case Age params of
        None \<Rightarrow> (None, s)
      | Some age \<Rightarrow>
          (case read_props props ''LastSeen'' of
             Inl error \<Rightarrow> (Some error, s)
           | Inr r \<Rightarrow>
               (case getUptime file s of
                  (Inl error, s) \<Rightarrow> (Some error, s)
                | (Inr uptime, s) \<Rightarrow>
                    (None, assign_value r (\<lambda>ap. ap\<lparr>LastSeen := plus_number uptime age\<rparr>) s))))"

definition update_Frequency ::
  "nat option \<Rightarrow> WpaSupplicantProperties \<Rightarrow> WifiDevice \<Rightarrow> js_error option \<times> WifiDevice" where
  "update_Frequency props params s =
     (case Frequency_bss params of
        None \<Rightarrow> (None, s)
      | Some frequency \<Rightarrow>
          (case read_props props ''Frequency'' of
             Inl error \<Rightarrow> (Some error, s)
           | Inr r \<Rightarrow> (None, assign_value r (\<lambda>ap. ap\<lparr>Frequency := frequency\<rparr>) s)))"

definition update_WpaFlags ::
  "nat option \<Rightarrow> WpaSupplicantProperties \<Rightarrow> WifiDevice \<Rightarrow> js_error option \<times> WifiDevice" where
  "update_WpaFlags props params s =
     (case WPA params of
        None \<Rightarrow> (None, s)
      | Some security \<Rightarrow>
          (case read_props props ''WpaFlags'' of
             Inl error \<Rightarrow> (Some error, s)
           | Inr r \<Rightarrow> (None, assign_value r (\<lambda>ap. ap\<lparr>WpaFlags := securityFromDict security\<rparr>) s)))"

definition update_RsnFlags ::
  "nat option \<Rightarrow> WpaSupplicantProperties \<Rightarrow> WifiDevice \<Rightarrow> js_error option \<times> WifiDevice" where
  "update_RsnFlags props params s =
     (case RSN params of
        None \<Rightarrow> (None, s)
      | Some security \<Rightarrow>
          (case read_props props ''RsnFlags'' of
             Inl error \<Rightarrow> (Some error, s)
           | Inr r \<Rightarrow> (None, assign_value r (\<lambda>ap. ap\<lparr>RsnFlags := securityFromDict security\<rparr>) s)))"

text \<open>Statements in sequence: a thrown value ends the handler with the state reached.\<close>

definition and_then ::
  "js_error option \<times> WifiDevice \<Rightarrow> (WifiDevice \<Rightarrow> js_error option \<times> WifiDevice)
     \<Rightarrow> js_error option \<times> WifiDevice" where
  "and_then res next_stmt = (case res of (Some error, s) \<Rightarrow> (Some error, s) | (None, s) \<Rightarrow> next_stmt s)"

text \<open>
  The handler of \<^verbatim>\<open>PropertiesChanged\<close> that \<^verbatim>\<open>_listenForBssPropertyChanges(bssid)\<close>
  subscribes. The result is the value that the handler's promise is rejected with
  (\<open>None\<close> when it resolves) and the state.
\<close>

definition on_PropertiesChanged ::
  "string \<Rightarrow> WpaSupplicantProperties \<Rightarrow> js_error + string \<Rightarrow> WifiDevice
     \<Rightarrow> js_error option \<times> WifiDevice" where
  "on_PropertiesChanged bssid params file s =
     (case bssPathMap s bssid of
        None \<Rightarrow> (None, console_error (''bssPath not found for '' @ bssid) s)
      | Some bssPath \<Rightarrow>
          (case accessPointPathMap s bssid of
             None \<Rightarrow> (None, console_error (''apPath not found for '' @ bssid) s)
           | Some apPath \<Rightarrow>
               let props = map_heap s (accessPoints s) apPath
               in and_then (and_then (and_then
                    (update_LastSeen props params file s)
                    (update_Frequency props params))
                    (update_WpaFlags props params))
                    (update_RsnFlags props params)))"

subsection \<open>The constructor and \<^verbatim>\<open>init\<close>\<close>

text \<open>The four containers that \<^verbatim>\<open>init\<close> fills, with the record objects it has created.\<close>

record init_locals =
  initialAccessPoints :: "string \<rightharpoonup> nat"
  initial_heap :: "nat \<rightharpoonup> AccessPointProperties"
  initial_next :: nat
  initialBssPathMap :: "string \<rightharpoonup> string"
  initialAccessPointPathMap :: "string \<rightharpoonup> string"
  initialBssInterfaces :: "(string \<times> ClientInterface) list"

definition empty_locals :: init_locals where
  "empty_locals =
     \<lparr>initialAccessPoints = Map.empty, initial_heap = Map.empty, initial_next = 0,
      initialBssPathMap = Map.empty, initialAccessPointPathMap = Map.empty,
      initialBssInterfaces = []\<rparr>"

text \<open>
  \<^verbatim>\<open>_listenForBss\<close>: besides the two handlers above it subscribes to the property changes
  of every \<open>bssid\<close> that \<^verbatim>\<open>_bssInterfaces\<close> holds, in the order of its keys.
\<close>

definition listenForBss :: "WifiDevice \<Rightarrow> WifiDevice" where
  "listenForBss s = foldl (\<lambda>s bssid. listenForBssPropertyChanges bssid s) s (map fst (bssInterfaces s))"

text \<open>The constructor. The object \<^verbatim>\<open>initialAccessPoints\<close> seeds the \<^verbatim>\<open>BehaviorSubject\<close>.\<close>

definition new_WifiDevice :: "init_locals \<Rightarrow> WifiDevice" where
  "new_WifiDevice l =
     listenForBss
       \<lparr>accessPoints = initial_next l,
        map_heap = (\<lambda>_. Map.empty)(initial_next l := initialAccessPoints l),
        ap_heap = initial_heap l,
        next_addr = Suc (initial_next l),
        accessPointsSubject = [initial_next l],
        bssListeners = Map.empty,
        live_listeners = Map.empty,
        next_listener = 0,
        bssPathMap = initialBssPathMap l,
        accessPointPathMap = initialAccessPointPathMap l,
        bssInterfaces = initialBssInterfaces l,
        console = []\<rparr>"

text \<open>
  \<^verbatim>\<open>getBSSs\<close>: every path of the list comes with what the three calls for it gave, a
  rejection or the interface and the formatted BSSID. A rejection leaves the loop.
\<close>

fun getBSSs ::
  "(string \<times> (js_error + ClientInterface \<times> string)) list \<Rightarrow> init_locals \<Rightarrow> js_error + init_locals" where
  "getBSSs [] l = Inr l"
| "getBSSs ((bssPath, Inl error) # rest) l = Inl error"
| "getBSSs ((bssPath, Inr (bssInterface, bssid)) # rest) l =
     getBSSs rest
       (l\<lparr>initialBssPathMap := ((initialBssPathMap l)(bssid \<mapsto> bssPath))(bssPath \<mapsto> bssid),
          initialBssInterfaces := AList.update bssid bssInterface (initialBssInterfaces l)\<rparr>)"

text \<open>
  \<^verbatim>\<open>getAccessPointDataFromPaths\<close>: every path of the list comes with what
  \<^verbatim>\<open>objectInterface\<close> and \<^verbatim>\<open>getAllProperties\<close> gave for it. The loop has no handler of
  its own, so a rejection leaves it.
\<close>

fun getAccessPointDataFromPaths ::
  "(string \<times> (js_error + RawAccessPointProperties)) list \<Rightarrow> init_locals \<Rightarrow> js_error + init_locals" where
  "getAccessPointDataFromPaths [] l = Inr l"
| "getAccessPointDataFromPaths ((accessPointPath, Inl error) # rest) l = Inl error"
| "getAccessPointDataFromPaths ((accessPointPath, Inr accessPointProperties) # rest) l =
     (let r = initial_next l;
          bssid = HwAddress accessPointProperties
      in getAccessPointDataFromPaths rest
           (l\<lparr>initial_heap := (initial_heap l)(r \<mapsto> decode_properties accessPointProperties),
              initial_next := Suc r,
              initialAccessPoints := (initialAccessPoints l)(accessPointPath \<mapsto> r),
              initialAccessPointPathMap :=
                ((initialAccessPointPathMap l)(bssid \<mapsto> accessPointPath))(accessPointPath \<mapsto> bssid)\<rparr>))"

text \<open>
  What the remote calls of \<^verbatim>\<open>init\<close> give: \<^verbatim>\<open>BaseDevice._init\<close> (with the list
  \<^verbatim>\<open>AccessPoints\<close> of the device, each path with the result of its later fetch), the proxy
  of the wpa_supplicant interface (\<open>None\<close> when it is obtained), and the property
  \<^verbatim>\<open>BSSs\<close>.
\<close>

record init_env =
  base_init :: "js_error + (string \<times> (js_error + RawAccessPointProperties)) list"
  wpa_proxy :: "js_error option"
  BSSs :: "js_error + (string \<times> (js_error + ClientInterface \<times> string)) list"

definition init_body :: "init_env \<Rightarrow> js_error + WifiDevice" where
  "init_body env =
     (case base_init env of
        Inl error \<Rightarrow> Inl error
      | Inr accessPoints_list \<Rightarrow>
          (case wpa_proxy env of
             Some error \<Rightarrow> Inl error
           | None \<Rightarrow>
               (case BSSs env of
                  Inl error \<Rightarrow> Inl error
                | Inr bss \<Rightarrow>
                    (case getBSSs bss empty_locals of
                       Inl error \<Rightarrow> Inl error
                     | Inr l \<Rightarrow>
                         (case getAccessPointDataFromPaths accessPoints_list l of
                            Inl error \<Rightarrow> Inl error
                          | Inr l \<Rightarrow> Inr (new_WifiDevice l))))))"

text \<open>\<^verbatim>\<open>init\<close>: the \<^verbatim>\<open>catch\<close> around the whole body throws a text that wraps the error.\<close>

definition init :: "init_env \<Rightarrow> js_error + WifiDevice" where
  "init env =
     (case init_body env of
        Inl error \<Rightarrow> Inl (Thrown (''Error creating wifi device: '' @ error_text error))
      | Inr device \<Rightarrow> Inr device)"

subsection \<open>Signals in sequence\<close>

text \<open>
  The signals that reach the device, each with what the calls of its handler find. A
  property change is delivered to one subscription, named by its reference, and only
  while that subscription is live. The run time is single-threaded and a handler takes
  the state as it is when its calls have returned; the one \<^verbatim>\<open>await\<close> in the middle of the
  handler of \<^verbatim>\<open>PropertiesChanged\<close>, for the uptime, is taken with no other handler in
  between. A rejected handler leaves the state it has reached.
\<close>

datatype event =
    AccessPointAdded string "js_error + RawAccessPointProperties"
  | AccessPointRemoved string
  | BSSAdded string string "js_error + ClientInterface"
  | BSSRemoved string
  | PropertiesChanged nat WpaSupplicantProperties "js_error + string"

fun step :: "event \<Rightarrow> WifiDevice \<Rightarrow> WifiDevice" where
  "step (AccessPointAdded apPath fetched) s = on_AccessPointAdded apPath fetched s"
| "step (AccessPointRemoved apPath) s = on_AccessPointRemoved apPath s"
| "step (BSSAdded bssPath bssid proxy) s = on_BSSAdded bssPath bssid proxy s"
| "step (BSSRemoved bssPath) s = on_BSSRemoved bssPath s"
| "step (PropertiesChanged listenerRef params file) s =
     (case live_listeners s listenerRef of
        None \<Rightarrow> s
      | Some (iface, bssid) \<Rightarrow> snd (on_PropertiesChanged bssid params file s))"

definition run :: "event list \<Rightarrow> WifiDevice \<Rightarrow> WifiDevice" where
  "run events s = foldl (\<lambda>s e. step e s) s events"

section \<open>Auxiliary notions for the statements\<close>

text \<open>
  Two states that agree on everything but the record objects and the console: the same
  reference in \<^verbatim>\<open>_accessPoints\<close>, the same map objects, the same values given to the
  subject, the same indexes and subscriptions.
\<close>

definition only_records_and_console_differ :: "WifiDevice \<Rightarrow> WifiDevice \<Rightarrow> bool" where
  "only_records_and_console_differ s s' \<longleftrightarrow>
     accessPoints s' = accessPoints s \<and> map_heap s' = map_heap s \<and>
     accessPointsSubject s' = accessPointsSubject s \<and> next_addr s' = next_addr s \<and>
     bssListeners s' = bssListeners s \<and> live_listeners s' = live_listeners s \<and>
     next_listener s' = next_listener s \<and> bssPathMap s' = bssPathMap s \<and>
     accessPointPathMap s' = accessPointPathMap s \<and> bssInterfaces s' = bssInterfaces s"

section \<open>Inputs for the evaluations\<close>

text \<open>
  What \<^verbatim>\<open>getAllProperties\<close> returns for an access point with the given hardware
  address: the SSID \<^verbatim>\<open>Home\<close> as bytes, channel 1, no security, never seen.
\<close>

definition example_ap :: "string \<Rightarrow> RawAccessPointProperties" where
  "example_ap hw =
     \<lparr>HwAddress = hw, Ssid = [72, 111, 109, 101], Frequency = 2412, Strength = 60,
      WpaFlags = 0, RsnFlags = 0, LastSeen = Num 0\<rparr>"

definition no_changes :: WpaSupplicantProperties where
  "no_changes = \<lparr>Age = None, Frequency_bss = None, WPA = None, RSN = None\<rparr>"

text \<open>
  A device with one BSS and one access point of the same hardware address, both
  announced by signals after the construction.
\<close>

definition home_device :: WifiDevice where
  "home_device =
     run [BSSAdded ''/bss/1'' ''AA:BB:CC:DD:EE:FF'' (Inr (ClientInterface ''/bss/1'')),
          AccessPointAdded ''/ap/1'' (Inr (example_ap ''AA:BB:CC:DD:EE:FF''))]
       (new_WifiDevice empty_locals)"

text \<open>
  The path \<^verbatim>\<open>/ap/1\<close> announced twice, the second time with another hardware address (as
  after a restart of NetworkManager, which numbers its objects from 1 again), and then
  removed: the index still resolves the first address to the path.
\<close>

definition desynchronized_device :: WifiDevice where
  "desynchronized_device =
     run [BSSAdded ''/bss/1'' ''AA:BB:CC:DD:EE:FF'' (Inr (ClientInterface ''/bss/1'')),
          AccessPointAdded ''/ap/1'' (Inr (example_ap ''AA:BB:CC:DD:EE:FF'')),
          AccessPointAdded ''/ap/1'' (Inr (example_ap ''11:22:33:44:55:66'')),
          AccessPointRemoved ''/ap/1'']
       (new_WifiDevice empty_locals)"

text \<open>Two access points that report the same hardware address.\<close>

definition twin_device :: WifiDevice where
  "twin_device =
     run [AccessPointAdded ''/ap/1'' (Inr (example_ap ''AA:BB:CC:DD:EE:FF'')),
          AccessPointAdded ''/ap/2'' (Inr (example_ap ''AA:BB:CC:DD:EE:FF''))]
       (new_WifiDevice empty_locals)"

text \<open>What the object \<^verbatim>\<open>initialAccessPoints\<close> of \<^verbatim>\<open>init\<close> shows: the record behind every path.\<close>

definition initial_view :: "init_locals \<Rightarrow> (string \<rightharpoonup> AccessPointProperties)" where
  "initial_view l = (\<lambda>p. case initialAccessPoints l p of None \<Rightarrow> None | Some r \<Rightarrow> initial_heap l r)"

text \<open>The bootstrap whose first access point cannot be fetched.\<close>

definition failing_env :: init_env where
  "failing_env =
     \<lparr>base_init = Inr [(''/ap/1'', Inl (Thrown ''boom'')),
                       (''/ap/2'', Inr (example_ap ''AA:BB:CC:DD:EE:FF''))],
      wpa_proxy = None,
      BSSs = Inr [(''/bss/1'', Inr (ClientInterface ''/bss/1'', ''AA:BB:CC:DD:EE:FF''))]\<rparr>"

text \<open>The bootstrap of the specification: one BSS, one access point, the same address.\<close>

definition home_env :: init_env where
  "home_env =
     \<lparr>base_init = Inr [(''/ap/1'', Inr (example_ap ''AA:BB:CC:DD:EE:FF''))],
      wpa_proxy = None,
      BSSs = Inr [(''/bss/1'', Inr (ClientInterface ''/bss/1'', ''AA:BB:CC:DD:EE:FF''))]\<rparr>"

text \<open>
  The store is in order when every reference given to the subject, and every record
  address inside the map objects they refer to, lies below the next free address, and
  the reference of the field is one of them.
\<close>

definition store_ok :: "WifiDevice \<Rightarrow> bool" where
  "store_ok s \<longleftrightarrow>
     accessPoints s \<in> set (accessPointsSubject s) \<and>
     (\<forall>a\<in>set (accessPointsSubject s).
        a < next_addr s \<and> (\<forall>p r. map_heap s a p = Some r \<longrightarrow> r < next_addr s))"

text \<open>
  The keys that a signal may put into \<^verbatim>\<open>_accessPointPathMap\<close>: the path and the hardware
  address of an access point whose properties were fetched.
\<close>

fun added_keys :: "event \<Rightarrow> string set" where
  "added_keys (AccessPointAdded apPath (Inr raw)) = {apPath, HwAddress raw}"
| "added_keys _ = {}"

text \<open>The bootstrap with two access points that report one hardware address.\<close>

definition twin_env :: init_env where
  "twin_env =
     \<lparr>base_init = Inr [(''/ap/1'', Inr (example_ap ''AA:BB:CC:DD:EE:FF'')),
                       (''/ap/2'', Inr (example_ap ''AA:BB:CC:DD:EE:FF''))],
      wpa_proxy = None,
      BSSs = Inr [(''/bss/1'', Inr (ClientInterface ''/bss/1'', ''AA:BB:CC:DD:EE:FF''))]\<rparr>"

section \<open>Properties of the decoder\<close>

lemmas flag_defs =
  NM_802_11_AP_SEC_NONE_def
  NM_802_11_AP_SEC_PAIR_WEP40_def NM_802_11_AP_SEC_PAIR_WEP104_def
  NM_802_11_AP_SEC_PAIR_TKIP_def NM_802_11_AP_SEC_PAIR_CCMP_def
  NM_802_11_AP_SEC_GROUP_WEP40_def NM_802_11_AP_SEC_GROUP_WEP104_def
  NM_802_11_AP_SEC_GROUP_TKIP_def NM_802_11_AP_SEC_GROUP_CCMP_def
  NM_802_11_AP_SEC_KEY_MGMT_PSK_def NM_802_11_AP_SEC_KEY_MGMT_802_1X_def
  NM_802_11_AP_SEC_KEY_MGMT_SAE_def NM_802_11_AP_SEC_KEY_MGMT_OWE_def
  NM_802_11_AP_SEC_KEY_MGMT_OWE_TM_def NM_802_11_AP_SEC_KEY_MGMT_EAP_SUITE_B_192_def



lemma or_each_append:
  "or_each f (xs @ ys) acc = or_each f ys (or_each f xs acc)"
  by (simp add: or_each_def)

lemma or_each_Cons_zero:
  "f t = 0 \<Longrightarrow> or_each f (t # ys) acc = or_each f ys acc"
  by (simp add: or_each_def)

lemma or_each_skip:
  "f t = 0 \<Longrightarrow> or_each f (xs @ t # ys) acc = or_each f (xs @ ys) acc"
  by (simp add: or_each_append or_each_Cons_zero)

lemma keyMgmtToFlags_unknown:
  "t \<notin> {''wpa-psk'', ''wpa-eap'', ''sae'', ''owe'', ''owe-tm'', ''wpa-eap-suite-b-192''}
   \<Longrightarrow> keyMgmtToFlags t = 0"
  by (simp add: keyMgmtToFlags_def NM_802_11_AP_SEC_NONE_def)

lemma pairToFlags_unknown:
  "t \<notin> {''wep40'', ''wep104'', ''tkip'', ''ccmp''} \<Longrightarrow> pairToFlags t = 0"
  by (simp add: pairToFlags_def NM_802_11_AP_SEC_NONE_def)

lemma groupToFlags_unknown:
  "t \<notin> {''wep40'', ''wep104'', ''tkip'', ''ccmp''} \<Longrightarrow> groupToFlags t = 0"
  by (simp add: groupToFlags_def NM_802_11_AP_SEC_NONE_def)

text \<open>
  C5: decoding \<^verbatim>\<open>{KeyMgmt: ["wpa-psk"], Pairwise: ["ccmp"], Group: "ccmp"}\<close> gives exactly
  \<^verbatim>\<open>PSK | PAIR_CCMP | GROUP_CCMP\<close>, which is \<^verbatim>\<open>0x100 | 0x8 | 0x80\<close>, and decoding
  the empty dictionary gives 0.
\<close>

theorem securityFromDict_psk_ccmp:
  "securityFromDict \<lparr>KeyMgmt = Some [''wpa-psk''], Pairwise = Some [''ccmp''],
                     Group = Some ''ccmp''\<rparr>
     = NM_802_11_AP_SEC_KEY_MGMT_PSK OR NM_802_11_AP_SEC_PAIR_CCMP OR NM_802_11_AP_SEC_GROUP_CCMP
   \<and> NM_802_11_AP_SEC_KEY_MGMT_PSK OR NM_802_11_AP_SEC_PAIR_CCMP OR NM_802_11_AP_SEC_GROUP_CCMP
     = (0x100 OR 0x8 OR 0x80 :: 32 word)
   \<and> securityFromDict empty_dict = 0"
  by (simp add: securityFromDict_def or_each_def keyMgmtToFlags_def pairToFlags_def
      groupToFlags_def empty_dict_def flag_defs)

text \<open>
  C6: a token outside the recognized vocabulary contributes nothing. Whatever the
  dictionary \<open>d\<close>, adding such a token \<open>t\<close> anywhere in the list of \<^verbatim>\<open>KeyMgmt\<close> or of
  \<^verbatim>\<open>Pairwise\<close> (also as the only element of a list that was absent), or setting it as
  \<^verbatim>\<open>Group\<close>, gives the mask of \<open>d\<close> without it. The decoder has no error result.
\<close>

theorem unrecognized_token_ignored:
  assumes "t \<notin> {''wpa-psk'', ''wpa-eap'', ''sae'', ''owe'', ''owe-tm'', ''wpa-eap-suite-b-192'',
                 ''wep40'', ''wep104'', ''tkip'', ''ccmp''}"
  shows "securityFromDict (d\<lparr>KeyMgmt := Some (xs @ t # ys)\<rparr>) = securityFromDict (d\<lparr>KeyMgmt := Some (xs @ ys)\<rparr>)
       \<and> securityFromDict (d\<lparr>KeyMgmt := Some [t]\<rparr>) = securityFromDict (d\<lparr>KeyMgmt := None\<rparr>)
       \<and> securityFromDict (d\<lparr>Pairwise := Some (xs @ t # ys)\<rparr>) = securityFromDict (d\<lparr>Pairwise := Some (xs @ ys)\<rparr>)
       \<and> securityFromDict (d\<lparr>Pairwise := Some [t]\<rparr>) = securityFromDict (d\<lparr>Pairwise := None\<rparr>)
       \<and> securityFromDict (d\<lparr>Group := Some t\<rparr>) = securityFromDict (d\<lparr>Group := None\<rparr>)"
proof -
  from assms have k: "keyMgmtToFlags t = 0" by (intro keyMgmtToFlags_unknown) simp
  from assms have p: "pairToFlags t = 0" by (intro pairToFlags_unknown) simp
  from assms have g: "groupToFlags t = 0" by (intro groupToFlags_unknown) simp
  have k1: "or_each keyMgmtToFlags [t] acc = acc" for acc
    using k by (simp add: or_each_def)
  have p1: "or_each pairToFlags [t] acc = acc" for acc
    using p by (simp add: or_each_def)
  show ?thesis
    by (simp add: securityFromDict_def or_each_skip [where f = keyMgmtToFlags, OF k] or_each_skip [where f = pairToFlags, OF p] k1 p1 g
        NM_802_11_AP_SEC_NONE_def split: option.splits)
qed

theorem unrecognized_token_ignored_witness:
  "''wpa3-unknown'' \<notin> {''wpa-psk'', ''wpa-eap'', ''sae'', ''owe'', ''owe-tm'', ''wpa-eap-suite-b-192'',
                 ''wep40'', ''wep104'', ''tkip'', ''ccmp''}
   \<and> securityFromDict \<lparr>KeyMgmt = Some [''wpa-psk'', ''wpa3-unknown''], Pairwise = Some [''ccmp''], Group = Some ''ccmp''\<rparr>
     = securityFromDict \<lparr>KeyMgmt = Some [''wpa-psk''], Pairwise = Some [''ccmp''], Group = Some ''ccmp''\<rparr>"
  using unrecognized_token_ignored [where t = "''wpa3-unknown''"
      and d = "\<lparr>KeyMgmt = None, Pairwise = Some [''ccmp''], Group = Some ''ccmp''\<rparr>"
      and xs = "[''wpa-psk'']" and ys = "[]"]
  by simp


section \<open>The handler of property changes touches records and console only\<close>

lemma frame_refl: "only_records_and_console_differ s s"
  by (simp add: only_records_and_console_differ_def)

lemma frame_trans:
  "only_records_and_console_differ s s1 \<Longrightarrow> only_records_and_console_differ s1 s2
   \<Longrightarrow> only_records_and_console_differ s s2"
  by (simp add: only_records_and_console_differ_def)

lemma frame_console_error: "only_records_and_console_differ s (console_error line s)"
  by (simp add: only_records_and_console_differ_def console_error_def)

lemma frame_assign_value: "only_records_and_console_differ s (assign_value r f s)"
  by (simp add: only_records_and_console_differ_def assign_value_def)

lemma frame_getUptime: "only_records_and_console_differ s (snd (getUptime file s))"
  by (simp add: getUptime_def frame_console_error frame_refl split: sum.splits)

lemma frame_update_LastSeen:
  "only_records_and_console_differ s (snd (update_LastSeen props params file s))"
proof (cases "getUptime file s")
  case (Pair res s1)
  with frame_getUptime [of s "file"] have f1: "only_records_and_console_differ s s1" by simp
  have f2: "only_records_and_console_differ s (assign_value r f s1)" for r f
    using f1 frame_assign_value by (rule frame_trans)
  show ?thesis
    using Pair f1 f2
    by (simp add: update_LastSeen_def frame_refl split: option.splits sum.splits)
qed

lemma frame_update_Frequency:
  "only_records_and_console_differ s (snd (update_Frequency props params s))"
  by (simp add: update_Frequency_def frame_refl frame_assign_value split: option.splits sum.splits)

lemma frame_update_WpaFlags:
  "only_records_and_console_differ s (snd (update_WpaFlags props params s))"
  by (simp add: update_WpaFlags_def frame_refl frame_assign_value split: option.splits sum.splits)

lemma frame_update_RsnFlags:
  "only_records_and_console_differ s (snd (update_RsnFlags props params s))"
  by (simp add: update_RsnFlags_def frame_refl frame_assign_value split: option.splits sum.splits)

lemma frame_and_then:
  assumes "only_records_and_console_differ s (snd res)"
    and "\<And>s1. only_records_and_console_differ s1 (snd (next_stmt s1))"
  shows "only_records_and_console_differ s (snd (and_then res next_stmt))"
proof (cases res)
  case (Pair thrown s1)
  show ?thesis
  proof (cases thrown)
    case None
    with Pair assms(1) assms(2) [of s1] show ?thesis
      by (auto simp: and_then_def intro: frame_trans)
  next
    case (Some e)
    with Pair assms(1) show ?thesis by (simp add: and_then_def)
  qed
qed

lemma frame_on_PropertiesChanged:
  "only_records_and_console_differ s (snd (on_PropertiesChanged bssid params file s))"
  by (auto simp: on_PropertiesChanged_def Let_def frame_console_error
      intro!: frame_and_then frame_update_LastSeen frame_update_Frequency
        frame_update_WpaFlags frame_update_RsnFlags
      split: option.splits)

lemmas handler_defs =
  on_AccessPointAdded_def on_AccessPointRemoved_def on_BSSAdded_def on_BSSRemoved_def
  listenForBssPropertyChanges_def listenSignal_def unsubscribe_def console_error_def

lemmas device_defs = run_def new_WifiDevice_def empty_locals_def listenForBss_def

section \<open>Subscriptions of the BSS objects\<close>

text \<open>
  C1: the handler of \<^verbatim>\<open>BSSRemoved\<close> is to cancel the subscription recorded for the
  hardware identity of the removed path. The subscription is stored under the \<open>bssid\<close>
  (\<^verbatim>\<open>_bssListeners.set(bssid, listenerRef)\<close>) and looked up under the path
  (\<^verbatim>\<open>_bssListeners.get(bssPath)\<close>), so the lookup misses. After \<^verbatim>\<open>BSSAdded\<close> and
  \<^verbatim>\<open>BSSRemoved\<close> for the same path both index entries are gone, and the subscription
  number 0 for the identity is still recorded and still live.
\<close>

theorem BSSRemoved_leaks_listener:
  "(let s = run [BSSAdded ''/bss/1'' ''AA:BB:CC:DD:EE:FF'' (Inr (ClientInterface ''/bss/1'')),
                 BSSRemoved ''/bss/1''] (new_WifiDevice empty_locals)
    in bssPathMap s ''/bss/1'' = None \<and> bssPathMap s ''AA:BB:CC:DD:EE:FF'' = None
     \<and> bssListeners s ''AA:BB:CC:DD:EE:FF'' = Some 0
     \<and> live_listeners s 0 = Some (ClientInterface ''/bss/1'', ''AA:BB:CC:DD:EE:FF''))"
  by (simp add: device_defs handler_defs)

text \<open>In general: when no subscription is stored under the path itself, none is cancelled.\<close>

lemma BSSRemoved_wrong_key:
  "bssListeners s bssPath = None \<Longrightarrow>
     live_listeners (on_BSSRemoved bssPath s) = live_listeners s
   \<and> bssListeners (on_BSSRemoved bssPath s) = bssListeners s"
  by (simp add: on_BSSRemoved_def Let_def)

section \<open>The getter and the stream\<close>

lemma listenForBssPropertyChanges_publication:
  "accessPoints (listenForBssPropertyChanges bssid s) = accessPoints s
   \<and> accessPointsSubject (listenForBssPropertyChanges bssid s) = accessPointsSubject s"
  by (simp add: listenForBssPropertyChanges_def listenSignal_def split: option.splits)

lemma listenForBss_publication:
  "accessPoints (listenForBss s) = accessPoints s
   \<and> accessPointsSubject (listenForBss s) = accessPointsSubject s"
proof -
  have "accessPoints (foldl (\<lambda>s bssid. listenForBssPropertyChanges bssid s) s bs) = accessPoints s
      \<and> accessPointsSubject (foldl (\<lambda>s bssid. listenForBssPropertyChanges bssid s) s bs)
          = accessPointsSubject s" for bs
    by (induction bs arbitrary: s) (simp_all add: listenForBssPropertyChanges_publication)
  then show ?thesis by (simp add: listenForBss_def)
qed

lemma subject_value_Some:
  "subject_value s = Some a \<longleftrightarrow> accessPointsSubject s \<noteq> [] \<and> last (accessPointsSubject s) = a"
  by (simp add: subject_value_def)

lemma subject_value_new: "subject_value (new_WifiDevice l) = Some (accessPoints (new_WifiDevice l))"
  by (simp add: subject_value_Some new_WifiDevice_def listenForBss_publication)

lemma subject_value_step:
  assumes "subject_value s = Some (accessPoints s)"
  shows "subject_value (step e s) = Some (accessPoints (step e s))"
proof (cases e)
  case (AccessPointAdded apPath fetched)
  with assms show ?thesis
    by (cases fetched) (simp_all add: subject_value_Some on_AccessPointAdded_def console_error_def Let_def)
next
  case (AccessPointRemoved apPath)
  then show ?thesis by (simp add: subject_value_Some on_AccessPointRemoved_def Let_def)
next
  case (BSSAdded bssPath bssid proxy)
  with assms show ?thesis
    by (cases proxy)
      (simp_all add: subject_value_Some on_BSSAdded_def console_error_def
        listenForBssPropertyChanges_publication)
next
  case (BSSRemoved bssPath)
  with assms show ?thesis
    by (simp add: subject_value_Some on_BSSRemoved_def unsubscribe_def Let_def split: option.splits)
next
  case (PropertiesChanged listenerRef params "file")
  have "only_records_and_console_differ s (snd (on_PropertiesChanged bssid params file s))" for bssid
    by (rule frame_on_PropertiesChanged)
  with assms PropertiesChanged show ?thesis
    by (auto simp: subject_value_Some only_records_and_console_differ_def split: option.splits)
qed

lemma subject_value_run:
  "subject_value s = Some (accessPoints s)
   \<Longrightarrow> subject_value (run events s) = Some (accessPoints (run events s))"
  unfolding run_def
  by (induction events arbitrary: s) (simp_all add: subject_value_step)

text \<open>
  C10: after the constructor and after every handler, whatever signals have arrived, the
  getter \<^verbatim>\<open>accessPoints\<close> returns the reference that the \<^verbatim>\<open>BehaviorSubject\<close> behind
  \<^verbatim>\<open>accessPoints$\<close> was given last (the seed at first): the same map object.
\<close>

theorem getter_agrees_with_stream:
  "subject_value (run events (new_WifiDevice l)) = Some (get_accessPoints (run events (new_WifiDevice l)))"
  unfolding get_accessPoints_def
  by (rule subject_value_run) (rule subject_value_new)

section \<open>Property changes of a BSS\<close>

lemmas handler_simps =
  on_PropertiesChanged_def update_LastSeen_def update_Frequency_def update_WpaFlags_def
  update_RsnFlags_def and_then_def read_props_def assign_value_def getUptime_def

lemma home_device_eval:
  "accessPoints home_device = 2" "accessPointsSubject home_device = [0, 2]"
  "map_heap home_device 2 ''/ap/1'' = Some (Suc 0)"
  "map_heap home_device 0 ''/ap/1'' = None"
  "ap_heap home_device (Suc 0) = Some (decode_properties (example_ap ''AA:BB:CC:DD:EE:FF''))"
  "bssPathMap home_device ''AA:BB:CC:DD:EE:FF'' = Some ''/bss/1''"
  "accessPointPathMap home_device ''AA:BB:CC:DD:EE:FF'' = Some ''/ap/1''"
  "live_listeners home_device 0 = Some (ClientInterface ''/bss/1'', ''AA:BB:CC:DD:EE:FF'')"
  "console home_device = []"
  by (simp_all add: home_device_def device_defs handler_defs Let_def example_ap_def eval_nat_numeral)

text \<open>
  C2: every change of the registry is to make a new snapshot and one emission. The handlers
  of \<^verbatim>\<open>AccessPointAdded\<close> and \<^verbatim>\<open>AccessPointRemoved\<close> do so (section on published snapshots below); the handler of
  \<^verbatim>\<open>PropertiesChanged\<close> does neither. On the device with one access point, a change of
  the frequency to 5180 gives the subject no new value and leaves the reference of the
  getter as it was, and the snapshot published before, which showed 2412, now shows 5180:
  the record was changed in place.
\<close>

theorem PropertiesChanged_mutates_in_place_without_emission:
  "(let ev = PropertiesChanged 0 (no_changes\<lparr>Frequency_bss := Some 5180\<rparr>) (Inr ''100.53 200.10'');
        published = last (accessPointsSubject home_device);
        s' = step ev home_device
    in accessPointsSubject s' = accessPointsSubject home_device
     \<and> get_accessPoints s' = get_accessPoints home_device
     \<and> map_option Frequency (snapshot_view home_device published ''/ap/1'') = Some 2412
     \<and> map_option Frequency (snapshot_view s' published ''/ap/1'') = Some 5180)"
  by (simp add: home_device_eval handler_simps no_changes_def snapshot_view_def get_accessPoints_def
      decode_properties_def example_ap_def)


lemma desynchronized_device_eval:
  "bssPathMap desynchronized_device ''AA:BB:CC:DD:EE:FF'' = Some ''/bss/1''"
  "accessPointPathMap desynchronized_device ''AA:BB:CC:DD:EE:FF'' = Some ''/ap/1''"
  "map_heap desynchronized_device (accessPoints desynchronized_device) ''/ap/1'' = None"
  "live_listeners desynchronized_device 0 = Some (ClientInterface ''/bss/1'', ''AA:BB:CC:DD:EE:FF'')"
  "console desynchronized_device = []"
  by (simp_all add: desynchronized_device_def device_defs handler_defs Let_def example_ap_def)

text \<open>
  C4: when the index resolves the \<open>bssid\<close> to a path that the registry does not hold, the
  handler is to log a warning and return. On the device where the index still resolves
  \<^verbatim>\<open>AA:BB:CC:DD:EE:FF\<close> to the removed \<^verbatim>\<open>/ap/1\<close>, a change that carries \<^verbatim>\<open>Age\<close> makes
  the handler throw a \<^verbatim>\<open>TypeError\<close>, and nothing is written to the console.
\<close>

theorem PropertiesChanged_absent_record_throws:
  "(let res = on_PropertiesChanged ''AA:BB:CC:DD:EE:FF'' (no_changes\<lparr>Age := Some 5\<rparr>)
                (Inr ''100.53 200.10'') desynchronized_device
    in accessPointPathMap desynchronized_device ''AA:BB:CC:DD:EE:FF'' = Some ''/ap/1''
     \<and> snapshot_view desynchronized_device (get_accessPoints desynchronized_device) ''/ap/1'' = None
     \<and> fst res = Some (TypeError ''Cannot read properties of undefined (reading LastSeen)'')
     \<and> console (snd res) = console desynchronized_device)"
  by (simp add: desynchronized_device_eval handler_simps no_changes_def snapshot_view_def
      get_accessPoints_def)

text \<open>
  In general, with the record absent: the first field that the change carries throws, the
  state stays as it is, and a change that carries none of the four fields does nothing.
\<close>

lemma PropertiesChanged_absent_record:
  assumes "bssPathMap s bssid = Some bssPath" and "accessPointPathMap s bssid = Some apPath"
    and "map_heap s (accessPoints s) apPath = None"
  shows "on_PropertiesChanged bssid params file s =
           (if Age params \<noteq> None
              then Some (TypeError ''Cannot read properties of undefined (reading LastSeen)'')
            else if Frequency_bss params \<noteq> None
              then Some (TypeError ''Cannot read properties of undefined (reading Frequency)'')
            else if WPA params \<noteq> None
              then Some (TypeError ''Cannot read properties of undefined (reading WpaFlags)'')
            else if RSN params \<noteq> None
              then Some (TypeError ''Cannot read properties of undefined (reading RsnFlags)'')
            else None, s)"
  using assms by (auto simp: handler_simps)

lemma snapshot_view_Some:
  "snapshot_view s a p = Some ap \<longleftrightarrow> (\<exists>r. map_heap s a p = Some r \<and> ap_heap s r = Some ap)"
  by (simp add: snapshot_view_def split: option.splits)

lemma update_LastSeen_stored:
  "ap_heap s r = Some ap \<Longrightarrow> Age params = Some a \<Longrightarrow>
   update_LastSeen (Some r) params (Inr data) s
     = (None, s\<lparr>ap_heap := (ap_heap s)(r \<mapsto> ap\<lparr>LastSeen := plus_number (parseInt (split_first data)) a\<rparr>)\<rparr>)"
  by (simp add: update_LastSeen_def read_props_def getUptime_def assign_value_def)

lemma update_Frequency_stored:
  "update_Frequency (Some r) params (s\<lparr>ap_heap := (ap_heap s)(r \<mapsto> ap)\<rparr>)
     = (None, s\<lparr>ap_heap := (ap_heap s)(r \<mapsto>
          (case Frequency_bss params of None \<Rightarrow> ap | Some f \<Rightarrow> ap\<lparr>Frequency := f\<rparr>))\<rparr>)"
  by (simp add: update_Frequency_def read_props_def assign_value_def split: option.splits)

lemma update_WpaFlags_stored:
  "update_WpaFlags (Some r) params (s\<lparr>ap_heap := (ap_heap s)(r \<mapsto> ap)\<rparr>)
     = (None, s\<lparr>ap_heap := (ap_heap s)(r \<mapsto>
          (case WPA params of None \<Rightarrow> ap | Some d \<Rightarrow> ap\<lparr>WpaFlags := securityFromDict d\<rparr>))\<rparr>)"
  by (simp add: update_WpaFlags_def read_props_def assign_value_def split: option.splits)

lemma update_RsnFlags_stored:
  "update_RsnFlags (Some r) params (s\<lparr>ap_heap := (ap_heap s)(r \<mapsto> ap)\<rparr>)
     = (None, s\<lparr>ap_heap := (ap_heap s)(r \<mapsto>
          (case RSN params of None \<Rightarrow> ap | Some d \<Rightarrow> ap\<lparr>RsnFlags := securityFromDict d\<rparr>))\<rparr>)"
  by (simp add: update_RsnFlags_def read_props_def assign_value_def split: option.splits)

lemma and_then_None: "and_then (None, s) next_stmt = next_stmt s"
  by (simp add: and_then_def)

lemma on_PropertiesChanged_uptime_read:
  assumes "bssPathMap s bssid = Some bssPath" and "accessPointPathMap s bssid = Some apPath"
    and "map_heap s (accessPoints s) apPath = Some r" and "ap_heap s r = Some ap"
    and "Age params = Some a"
  shows "\<exists>ap'. on_PropertiesChanged bssid params (Inr data) s
           = (None, s\<lparr>ap_heap := (ap_heap s)(r \<mapsto> ap')\<rparr>)
         \<and> LastSeen ap' = plus_number (parseInt (split_first data)) a
         \<and> (\<forall>f. Frequency_bss params = Some f \<longrightarrow> Frequency ap' = f)"
proof -
  define ap1 where "ap1 = ap\<lparr>LastSeen := plus_number (parseInt (split_first data)) a\<rparr>"
  define ap2 where "ap2 = (case Frequency_bss params of None \<Rightarrow> ap1 | Some f \<Rightarrow> ap1\<lparr>Frequency := f\<rparr>)"
  define ap3 where "ap3 = (case WPA params of None \<Rightarrow> ap2 | Some d \<Rightarrow> ap2\<lparr>WpaFlags := securityFromDict d\<rparr>)"
  define ap4 where "ap4 = (case RSN params of None \<Rightarrow> ap3 | Some d \<Rightarrow> ap3\<lparr>RsnFlags := securityFromDict d\<rparr>)"
  have "on_PropertiesChanged bssid params (Inr data) s
          = (None, s\<lparr>ap_heap := (ap_heap s)(r \<mapsto> ap4)\<rparr>)"
    unfolding ap4_def ap3_def ap2_def ap1_def
    by (simp add: on_PropertiesChanged_def assms(1,2,3)
        update_LastSeen_stored [OF assms(4,5)] and_then_None update_Frequency_stored
        update_WpaFlags_stored update_RsnFlags_stored)
  moreover have "LastSeen ap4 = plus_number (parseInt (split_first data)) a"
    by (simp add: ap4_def ap3_def ap2_def ap1_def split: option.splits)
  moreover have "\<forall>f. Frequency_bss params = Some f \<longrightarrow> Frequency ap4 = f"
    by (simp add: ap4_def ap3_def ap2_def ap1_def split: option.splits)
  ultimately show ?thesis by blast
qed

text \<open>
  C7: when the \<open>bssid\<close> of the subscription resolves to a path whose record the registry
  holds, the change carries \<^verbatim>\<open>Age = a\<close> and the uptime read from the file is \<open>u\<close>, the
  handler resolves and the record at that path has \<^verbatim>\<open>LastSeen = u + a\<close>; a
  \<^verbatim>\<open>Frequency\<close> carried by the same change is the frequency of the record.
\<close>

theorem PropertiesChanged_sets_LastSeen:
  assumes "bssPathMap s bssid = Some bssPath" and "accessPointPathMap s bssid = Some apPath"
    and "snapshot_view s (get_accessPoints s) apPath = Some ap"
    and "Age params = Some a" and "parseInt (split_first data) = Num u"
  shows "(let (thrown, s') = on_PropertiesChanged bssid params (Inr data) s
          in thrown = None
           \<and> (\<exists>ap'. snapshot_view s' (get_accessPoints s') apPath = Some ap'
                  \<and> LastSeen ap' = Num (u + a)
                  \<and> (\<forall>f. Frequency_bss params = Some f \<longrightarrow> Frequency ap' = f)))"
proof -
  from assms(3) obtain r where r: "map_heap s (accessPoints s) apPath = Some r" "ap_heap s r = Some ap"
    by (auto simp: snapshot_view_Some get_accessPoints_def)
  from on_PropertiesChanged_uptime_read [OF assms(1,2) r assms(4), of data]
  obtain ap' where ap': "on_PropertiesChanged bssid params (Inr data) s
           = (None, s\<lparr>ap_heap := (ap_heap s)(r \<mapsto> ap')\<rparr>)"
      "LastSeen ap' = plus_number (parseInt (split_first data)) a"
      "\<forall>f. Frequency_bss params = Some f \<longrightarrow> Frequency ap' = f"
    by blast
  with r assms(5) show ?thesis
    by (simp add: snapshot_view_def get_accessPoints_def)
qed

lemma parseInt_uptime_100: "parseInt (split_first ''100.53 200.10'') = Num 100"
  by (simp add: parseInt_def split_first_def StrWhiteSpaceChar_def digit_of_def digits_value_def)

text \<open>The example of the specification: \<^verbatim>\<open>Age\<close> 5 at uptime 100 gives 105.\<close>

theorem PropertiesChanged_sets_LastSeen_witness:
  "(let (thrown, s') = on_PropertiesChanged ''AA:BB:CC:DD:EE:FF''
                         (no_changes\<lparr>Age := Some 5, Frequency_bss := Some 5180\<rparr>)
                         (Inr ''100.53 200.10'') home_device
    in bssPathMap home_device ''AA:BB:CC:DD:EE:FF'' = Some ''/bss/1''
     \<and> accessPointPathMap home_device ''AA:BB:CC:DD:EE:FF'' = Some ''/ap/1''
     \<and> snapshot_view home_device (get_accessPoints home_device) ''/ap/1''
         = Some (decode_properties (example_ap ''AA:BB:CC:DD:EE:FF''))
     \<and> parseInt (split_first ''100.53 200.10'') = Num 100
     \<and> thrown = None
     \<and> (\<exists>ap'. snapshot_view s' (get_accessPoints s') ''/ap/1'' = Some ap'
           \<and> LastSeen ap' = Num 105 \<and> Frequency ap' = 5180))"
proof -
  have 1: "bssPathMap home_device ''AA:BB:CC:DD:EE:FF'' = Some ''/bss/1''"
    and 2: "accessPointPathMap home_device ''AA:BB:CC:DD:EE:FF'' = Some ''/ap/1''"
    and 3: "snapshot_view home_device (get_accessPoints home_device) ''/ap/1''
         = Some (decode_properties (example_ap ''AA:BB:CC:DD:EE:FF''))"
    and 4: "Age (no_changes\<lparr>Age := Some 5, Frequency_bss := Some 5180\<rparr>) = Some 5"
    by (simp_all add: home_device_eval snapshot_view_def get_accessPoints_def)
  show ?thesis
    using PropertiesChanged_sets_LastSeen [OF 1 2 3 4 parseInt_uptime_100] 1 2 3 parseInt_uptime_100
    by (auto simp: no_changes_def)
qed

text \<open>
  C9, as stated, fails: with the uptime file unreadable, a change that carries \<^verbatim>\<open>Age\<close> and
  \<^verbatim>\<open>Frequency = 5180\<close> is rejected with the error of the read, and the frequency of the
  record is still 2412.
\<close>

theorem uptime_failure_keeps_Frequency:
  "Frequency_bss (no_changes\<lparr>Age := Some 5, Frequency_bss := Some 5180\<rparr>) = Some 5180
   \<and> fst (on_PropertiesChanged ''AA:BB:CC:DD:EE:FF''
            (no_changes\<lparr>Age := Some 5, Frequency_bss := Some 5180\<rparr>)
            (Inl (Thrown ''ENOENT'')) home_device)
       = Some (Thrown ''ENOENT'')
   \<and> map_option Frequency
        (snapshot_view
           (snd (on_PropertiesChanged ''AA:BB:CC:DD:EE:FF''
                   (no_changes\<lparr>Age := Some 5, Frequency_bss := Some 5180\<rparr>)
                   (Inl (Thrown ''ENOENT'')) home_device))
           (get_accessPoints
              (snd (on_PropertiesChanged ''AA:BB:CC:DD:EE:FF''
                      (no_changes\<lparr>Age := Some 5, Frequency_bss := Some 5180\<rparr>)
                      (Inl (Thrown ''ENOENT'')) home_device)))
           ''/ap/1'')
       = Some 2412"
  by (simp add: home_device_eval handler_simps no_changes_def snapshot_view_def get_accessPoints_def
      decode_properties_def example_ap_def console_error_def)

text \<open>
  C9, amended: if reading the uptime file fails while the handler processes a change that
  carries \<^verbatim>\<open>Age\<close> for a record that the registry holds, the error is logged by
  \<^verbatim>\<open>_getUptime\<close> and thrown again, the handler does not catch it and is rejected with it,
  and no update of the change is applied: apart from the line on the console the state
  is the one before, whatever other fields the change carries.
\<close>

theorem uptime_failure_drops_event:
  assumes "bssPathMap s bssid = Some bssPath" and "accessPointPathMap s bssid = Some apPath"
    and "snapshot_view s (get_accessPoints s) apPath = Some ap"
    and "Age params = Some a"
  shows "on_PropertiesChanged bssid params (Inl error) s
           = (Some error, console_error (''Error reading uptime: '' @ error_text error) s)"
proof -
  from assms(3) obtain r where "map_heap s (accessPoints s) apPath = Some r"
    by (auto simp: snapshot_view_Some get_accessPoints_def)
  with assms(1,2,4) show ?thesis
    by (simp add: handler_simps)
qed

theorem uptime_failure_drops_event_witness:
  "bssPathMap home_device ''AA:BB:CC:DD:EE:FF'' = Some ''/bss/1''
   \<and> accessPointPathMap home_device ''AA:BB:CC:DD:EE:FF'' = Some ''/ap/1''
   \<and> snapshot_view home_device (get_accessPoints home_device) ''/ap/1''
         = Some (decode_properties (example_ap ''AA:BB:CC:DD:EE:FF''))
   \<and> on_PropertiesChanged ''AA:BB:CC:DD:EE:FF''
        (no_changes\<lparr>Age := Some 5, Frequency_bss := Some 5180\<rparr>) (Inl (Thrown ''ENOENT'')) home_device
       = (Some (Thrown ''ENOENT''), console_error ''Error reading uptime: ENOENT'' home_device)"
proof -
  have 1: "bssPathMap home_device ''AA:BB:CC:DD:EE:FF'' = Some ''/bss/1''"
    and 2: "accessPointPathMap home_device ''AA:BB:CC:DD:EE:FF'' = Some ''/ap/1''"
    and 3: "snapshot_view home_device (get_accessPoints home_device) ''/ap/1''
         = Some (decode_properties (example_ap ''AA:BB:CC:DD:EE:FF''))"
    and 4: "Age (no_changes\<lparr>Age := Some 5, Frequency_bss := Some 5180\<rparr>) = Some 5"
    by (simp_all add: home_device_eval snapshot_view_def get_accessPoints_def)
  show ?thesis
    using uptime_failure_drops_event [OF 1 2 3 4, of "Thrown ''ENOENT''"] 1 2 3
    by simp
qed

section \<open>Removal of an access point\<close>

lemma twin_device_eval:
  "accessPointPathMap twin_device ''/ap/1'' = Some ''AA:BB:CC:DD:EE:FF''"
  "accessPointPathMap twin_device ''/ap/2'' = Some ''AA:BB:CC:DD:EE:FF''"
  "accessPointPathMap twin_device ''AA:BB:CC:DD:EE:FF'' = Some ''/ap/2''"
  "map_heap twin_device (accessPoints twin_device) ''/ap/2'' = Some 3"
  "ap_heap twin_device 3 = Some (decode_properties (example_ap ''AA:BB:CC:DD:EE:FF''))"
  by (simp_all add: twin_device_def device_defs handler_defs Let_def example_ap_def eval_nat_numeral)

text \<open>
  C8, as stated, fails where two access points report one hardware address: the index
  then holds the address for the path added last, \<^verbatim>\<open>/ap/2\<close>. Removing \<^verbatim>\<open>/ap/1\<close> deletes
  that entry, which is neither direction of the pair of \<^verbatim>\<open>/ap/1\<close>, while the record of
  \<^verbatim>\<open>/ap/2\<close> stays in the registry.
\<close>

theorem AccessPointRemoved_deletes_entry_of_twin:
  "accessPointPathMap twin_device ''/ap/1'' = Some ''AA:BB:CC:DD:EE:FF''
   \<and> (''AA:BB:CC:DD:EE:FF'', ''/ap/2'') \<in> Map.graph (accessPointPathMap twin_device)
   \<and> (''AA:BB:CC:DD:EE:FF'', ''/ap/2'')
        \<notin> {(''/ap/1'', ''AA:BB:CC:DD:EE:FF''), (''AA:BB:CC:DD:EE:FF'', ''/ap/1'')}
   \<and> (''AA:BB:CC:DD:EE:FF'', ''/ap/2'')
        \<notin> Map.graph (accessPointPathMap (on_AccessPointRemoved ''/ap/1'' twin_device))
   \<and> snapshot_view (on_AccessPointRemoved ''/ap/1'' twin_device)
        (get_accessPoints (on_AccessPointRemoved ''/ap/1'' twin_device)) ''/ap/2''
       = Some (decode_properties (example_ap ''AA:BB:CC:DD:EE:FF''))"
  by (simp add: twin_device_eval on_AccessPointRemoved_def Let_def Map.graph_def snapshot_view_def
      get_accessPoints_def)

text \<open>
  C8, amended: the handler of \<^verbatim>\<open>AccessPointRemoved(p)\<close> publishes a snapshot that is the
  one before without \<open>p\<close>, and deletes the index entries under the key \<open>p\<close> and under the
  hardware address that the index holds for \<open>p\<close>, whatever path that address maps to;
  every entry under another key, every other record and every other part of the device
  is as before. When the index still maps the address back to \<open>p\<close>, these are exactly the
  two directions of the pair of \<open>p\<close>. When neither registry nor index holds \<open>p\<close>, both
  are unchanged; the handler has no error result.
\<close>

theorem AccessPointRemoved_effect:
  "(let s' = on_AccessPointRemoved p s
    in snapshot_view s' (get_accessPoints s') = (snapshot_view s (get_accessPoints s))(p := None)
     \<and> accessPointPathMap s'
         = (\<lambda>k. if k = p \<or> accessPointPathMap s p = Some k then None else accessPointPathMap s k)
     \<and> (\<forall>h. accessPointPathMap s p = Some h \<and> accessPointPathMap s h = Some p \<longrightarrow>
           Map.graph (accessPointPathMap s') = Map.graph (accessPointPathMap s) - {(p, h), (h, p)})
     \<and> (snapshot_view s (get_accessPoints s) p = None \<and> accessPointPathMap s p = None \<longrightarrow>
           snapshot_view s' (get_accessPoints s') = snapshot_view s (get_accessPoints s)
         \<and> accessPointPathMap s' = accessPointPathMap s)
     \<and> accessPointsSubject s' = accessPointsSubject s @ [get_accessPoints s']
     \<and> ap_heap s' = ap_heap s \<and> bssPathMap s' = bssPathMap s \<and> bssListeners s' = bssListeners s
     \<and> live_listeners s' = live_listeners s \<and> bssInterfaces s' = bssInterfaces s
     \<and> console s' = console s)"
proof -
  define s' where "s' = on_AccessPointRemoved p s"
  have view: "snapshot_view s' (get_accessPoints s') = (snapshot_view s (get_accessPoints s))(p := None)"
    by (rule ext)
      (simp add: s'_def on_AccessPointRemoved_def Let_def snapshot_view_def get_accessPoints_def
        split: option.splits)
  have index: "accessPointPathMap s'
         = (\<lambda>k. if k = p \<or> accessPointPathMap s p = Some k then None else accessPointPathMap s k)"
    by (rule ext) (auto simp: s'_def on_AccessPointRemoved_def Let_def split: option.splits)
  have pair: "Map.graph (accessPointPathMap s') = Map.graph (accessPointPathMap s) - {(p, h), (h, p)}"
    if "accessPointPathMap s p = Some h" "accessPointPathMap s h = Some p" for h
    using that unfolding index Map.graph_def by (auto split: if_splits)
  have noop: "snapshot_view s' (get_accessPoints s') = snapshot_view s (get_accessPoints s)
         \<and> accessPointPathMap s' = accessPointPathMap s"
    if "snapshot_view s (get_accessPoints s) p = None" "accessPointPathMap s p = None"
    using that unfolding index view by (auto simp: fun_eq_iff)
  have rest: "accessPointsSubject s' = accessPointsSubject s @ [get_accessPoints s']
     \<and> ap_heap s' = ap_heap s \<and> bssPathMap s' = bssPathMap s \<and> bssListeners s' = bssListeners s
     \<and> live_listeners s' = live_listeners s \<and> bssInterfaces s' = bssInterfaces s
     \<and> console s' = console s"
    by (simp add: s'_def on_AccessPointRemoved_def Let_def get_accessPoints_def)
  from view index pair noop rest show ?thesis
    unfolding s'_def [symmetric] Let_def by blast
qed

theorem AccessPointRemoved_effect_witness:
  "accessPointPathMap home_device ''/ap/1'' = Some ''AA:BB:CC:DD:EE:FF''
   \<and> accessPointPathMap home_device ''AA:BB:CC:DD:EE:FF'' = Some ''/ap/1''
   \<and> Map.graph (accessPointPathMap (on_AccessPointRemoved ''/ap/1'' home_device))
       = Map.graph (accessPointPathMap home_device)
          - {(''/ap/1'', ''AA:BB:CC:DD:EE:FF''), (''AA:BB:CC:DD:EE:FF'', ''/ap/1'')}
   \<and> snapshot_view home_device (get_accessPoints home_device) ''/ap/9'' = None
   \<and> accessPointPathMap home_device ''/ap/9'' = None
   \<and> snapshot_view (on_AccessPointRemoved ''/ap/9'' home_device)
        (get_accessPoints (on_AccessPointRemoved ''/ap/9'' home_device))
       = snapshot_view home_device (get_accessPoints home_device)
   \<and> accessPointPathMap (on_AccessPointRemoved ''/ap/9'' home_device) = accessPointPathMap home_device"
proof -
  have 1: "accessPointPathMap home_device ''/ap/1'' = Some ''AA:BB:CC:DD:EE:FF''"
    and 2: "accessPointPathMap home_device ''AA:BB:CC:DD:EE:FF'' = Some ''/ap/1''"
    and 3: "snapshot_view home_device (get_accessPoints home_device) ''/ap/9'' = None"
    and 4: "accessPointPathMap home_device ''/ap/9'' = None"
    by (simp_all add: home_device_def device_defs handler_defs Let_def example_ap_def
        snapshot_view_def get_accessPoints_def)
  show ?thesis
    using AccessPointRemoved_effect [of "''/ap/1''" home_device]
      AccessPointRemoved_effect [of "''/ap/9''" home_device] 1 2 3 4
    unfolding Let_def by blast
qed

section \<open>Bootstrap\<close>

lemma getBSSs_keeps_access_points:
  "getBSSs bss l = Inr l' \<Longrightarrow>
     initialAccessPoints l' = initialAccessPoints l \<and> initial_heap l' = initial_heap l
   \<and> initial_next l' = initial_next l
   \<and> initialAccessPointPathMap l' = initialAccessPointPathMap l"
  by (induction bss l rule: getBSSs.induct) simp_all

lemma getAccessPointDataFromPaths_first_failure:
  "\<forall>x\<in>set pre. \<exists>raw. snd x = Inr raw \<Longrightarrow>
   getAccessPointDataFromPaths (pre @ (p, Inl e) # post) l = Inl e"
proof (induction pre arbitrary: l)
  case Nil
  show ?case by simp
next
  case (Cons x pre)
  then obtain p0 raw0 where x: "x = (p0, Inr raw0)" by (cases x) auto
  from Cons show ?case by (simp add: x Let_def)
qed

lemma map_of_rev_Cons:
  "map_of (rev (x # xs)) p
     = (case map_of (rev xs) p of Some y \<Rightarrow> Some y
        | None \<Rightarrow> if p = fst x then Some (snd x) else None)"
  by (cases x) (simp add: map_add_def split: option.splits)

lemma getAccessPointDataFromPaths_all_fetched:
  assumes "\<forall>x\<in>set aps. \<exists>raw. snd x = Inr raw"
    and "\<forall>p r. initialAccessPoints l p = Some r \<longrightarrow> r < initial_next l"
  shows "\<exists>l'. getAccessPointDataFromPaths aps l = Inr l'
           \<and> (\<forall>p. initial_view l' p =
                  (case map_of (rev aps) p of
                     None \<Rightarrow> initial_view l p
                   | Some (Inr raw) \<Rightarrow> Some (decode_properties raw)
                   | Some (Inl e) \<Rightarrow> None))
           \<and> dom (initialAccessPointPathMap l')
                = dom (initialAccessPointPathMap l) \<union> fst ` set aps
                  \<union> {HwAddress raw | p raw. (p, Inr raw) \<in> set aps}
           \<and> initialBssPathMap l' = initialBssPathMap l
           \<and> initialBssInterfaces l' = initialBssInterfaces l"
  using assms
proof (induction aps arbitrary: l)
  case Nil
  show ?case by simp
next
  case (Cons x aps)
  then obtain p0 raw0 where x: "x = (p0, Inr raw0)" by (cases x) auto
  define l1 where "l1 = l\<lparr>initial_heap := (initial_heap l)(initial_next l \<mapsto> decode_properties raw0),
              initial_next := Suc (initial_next l),
              initialAccessPoints := (initialAccessPoints l)(p0 \<mapsto> initial_next l),
              initialAccessPointPathMap :=
                ((initialAccessPointPathMap l)(HwAddress raw0 \<mapsto> p0))(p0 \<mapsto> HwAddress raw0)\<rparr>"
  have step: "getAccessPointDataFromPaths (x # aps) l = getAccessPointDataFromPaths aps l1"
    by (simp add: x l1_def Let_def)
  have fresh1: "\<forall>p r. initialAccessPoints l1 p = Some r \<longrightarrow> r < initial_next l1"
    using Cons.prems(2) by (auto simp: l1_def less_Suc_eq)
  have view1: "initial_view l1 p = (if p = p0 then Some (decode_properties raw0) else initial_view l p)" for p
    using Cons.prems(2) by (auto simp: l1_def initial_view_def split: option.splits)
  from Cons.prems(1) have "\<forall>x\<in>set aps. \<exists>raw. snd x = Inr raw" by simp
  from Cons.IH [OF this fresh1] obtain l' where l':
    "getAccessPointDataFromPaths aps l1 = Inr l'"
    "\<forall>p. initial_view l' p =
        (case map_of (rev aps) p of
           None \<Rightarrow> initial_view l1 p
         | Some (Inr raw) \<Rightarrow> Some (decode_properties raw)
         | Some (Inl e) \<Rightarrow> None)"
    "dom (initialAccessPointPathMap l')
       = dom (initialAccessPointPathMap l1) \<union> fst ` set aps
         \<union> {HwAddress raw | p raw. (p, Inr raw) \<in> set aps}"
    "initialBssPathMap l' = initialBssPathMap l1"
    "initialBssInterfaces l' = initialBssInterfaces l1"
    by blast
  have "initial_view l' p =
          (case map_of (rev (x # aps)) p of
             None \<Rightarrow> initial_view l p
           | Some (Inr raw) \<Rightarrow> Some (decode_properties raw)
           | Some (Inl e) \<Rightarrow> None)" for p
    unfolding map_of_rev_Cons
    using l'(2) [rule_format, of p] by (simp add: view1 x split: option.splits sum.splits)
  moreover have "dom (initialAccessPointPathMap l')
       = dom (initialAccessPointPathMap l) \<union> fst ` set (x # aps)
         \<union> {HwAddress raw | p raw. (p, Inr raw) \<in> set (x # aps)}"
    unfolding l'(3) by (auto simp: l1_def x)
  moreover have "initialBssPathMap l' = initialBssPathMap l"
    "initialBssInterfaces l' = initialBssInterfaces l"
    using l'(4,5) by (simp_all add: l1_def)
  ultimately show ?case using step l'(1) by simp
qed

lemma listenForBssPropertyChanges_registry:
  "accessPoints (listenForBssPropertyChanges bssid s) = accessPoints s
   \<and> map_heap (listenForBssPropertyChanges bssid s) = map_heap s
   \<and> ap_heap (listenForBssPropertyChanges bssid s) = ap_heap s
   \<and> accessPointPathMap (listenForBssPropertyChanges bssid s) = accessPointPathMap s"
  by (simp add: listenForBssPropertyChanges_def listenSignal_def split: option.splits)

lemma listenForBss_registry:
  "accessPoints (listenForBss s) = accessPoints s \<and> map_heap (listenForBss s) = map_heap s
   \<and> ap_heap (listenForBss s) = ap_heap s
   \<and> accessPointPathMap (listenForBss s) = accessPointPathMap s"
proof -
  have "accessPoints (foldl (\<lambda>s bssid. listenForBssPropertyChanges bssid s) s bs) = accessPoints s
      \<and> map_heap (foldl (\<lambda>s bssid. listenForBssPropertyChanges bssid s) s bs) = map_heap s
      \<and> ap_heap (foldl (\<lambda>s bssid. listenForBssPropertyChanges bssid s) s bs) = ap_heap s
      \<and> accessPointPathMap (foldl (\<lambda>s bssid. listenForBssPropertyChanges bssid s) s bs)
          = accessPointPathMap s" for bs
    by (induction bs arbitrary: s) (simp_all add: listenForBssPropertyChanges_registry)
  then show ?thesis by (simp add: listenForBss_def)
qed

lemma new_WifiDevice_registry:
  "snapshot_view (new_WifiDevice l) (get_accessPoints (new_WifiDevice l)) = initial_view l
   \<and> accessPointPathMap (new_WifiDevice l) = initialAccessPointPathMap l"
proof -
  have "ap_heap (new_WifiDevice l) = initial_heap l"
    and "map_heap (new_WifiDevice l) (accessPoints (new_WifiDevice l)) = initialAccessPoints l"
    and "accessPointPathMap (new_WifiDevice l) = initialAccessPointPathMap l"
    by (simp_all add: new_WifiDevice_def listenForBss_registry)
  then show ?thesis
    by (simp add: snapshot_view_def get_accessPoints_def initial_view_def cong: option.case_cong)
qed

text \<open>
  C3, as stated, fails: with the first of two access points failing to be fetched, \<^verbatim>\<open>init\<close>
  is rejected with the wrapped error. No device is made, so the second access point is
  not inserted anywhere.
\<close>

theorem init_failed_fetch_aborts:
  "init failing_env = Inl (Thrown ''Error creating wifi device: boom'')"
  by (simp add: init_def init_body_def failing_env_def empty_locals_def)

text \<open>
  The index after the loop: a key that no later access point of the list writes keeps
  what the access point wrote, the address under the path and the path under the address.
\<close>

lemma getAccessPointDataFromPaths_append:
  "getAccessPointDataFromPaths (xs @ ys) l
     = (case getAccessPointDataFromPaths xs l of
          Inl e \<Rightarrow> Inl e
        | Inr l1 \<Rightarrow> getAccessPointDataFromPaths ys l1)"
  by (induction xs l rule: getAccessPointDataFromPaths.induct) (simp_all add: Let_def)

lemma getAccessPointDataFromPaths_index_kept:
  "getAccessPointDataFromPaths ys l = Inr l' \<Longrightarrow> k \<notin> fst ` set ys
   \<Longrightarrow> \<forall>x\<in>set ys. \<forall>raw. snd x = Inr raw \<longrightarrow> HwAddress raw \<noteq> k
   \<Longrightarrow> initialAccessPointPathMap l' k = initialAccessPointPathMap l k"
  by (induction ys l rule: getAccessPointDataFromPaths.induct) (auto simp: Let_def)

lemma getAccessPointDataFromPaths_index_values:
  assumes run: "getAccessPointDataFromPaths (pre @ (p, Inr raw) # post) l = Inr l'"
  shows "(p \<notin> fst ` set post \<and> (\<forall>x\<in>set post. \<forall>raw'. snd x = Inr raw' \<longrightarrow> HwAddress raw' \<noteq> p)
            \<longrightarrow> initialAccessPointPathMap l' p = Some (HwAddress raw))
       \<and> (HwAddress raw \<notin> fst ` set post
            \<and> (\<forall>x\<in>set post. \<forall>raw'. snd x = Inr raw' \<longrightarrow> HwAddress raw' \<noteq> HwAddress raw)
            \<longrightarrow> initialAccessPointPathMap l' (HwAddress raw) = Some p)"
proof -
  from run obtain l1 where l1: "getAccessPointDataFromPaths pre l = Inr l1"
    and rest: "getAccessPointDataFromPaths ((p, Inr raw) # post) l1 = Inr l'"
    by (auto simp: getAccessPointDataFromPaths_append split: sum.splits)
  define l2 where "l2 = l1\<lparr>initial_heap := (initial_heap l1)(initial_next l1 \<mapsto> decode_properties raw),
              initial_next := Suc (initial_next l1),
              initialAccessPoints := (initialAccessPoints l1)(p \<mapsto> initial_next l1),
              initialAccessPointPathMap :=
                ((initialAccessPointPathMap l1)(HwAddress raw \<mapsto> p))(p \<mapsto> HwAddress raw)\<rparr>"
  from rest have post: "getAccessPointDataFromPaths post l2 = Inr l'"
    by (simp add: l2_def Let_def)
  have at_p: "initialAccessPointPathMap l2 p = Some (HwAddress raw)"
    and at_h: "initialAccessPointPathMap l2 (HwAddress raw) = Some p"
    by (auto simp: l2_def)
  show ?thesis
    using getAccessPointDataFromPaths_index_kept [OF post, of p]
      getAccessPointDataFromPaths_index_kept [OF post, of "HwAddress raw"] at_p at_h
    by simp
qed

text \<open>
  C3, amended: once the calls before it and the enumeration of the BSS objects have
  succeeded, a failure while fetching the properties of one access point aborts the
  initialization: \<^verbatim>\<open>init\<close> is rejected with \<^verbatim>\<open>Error creating wifi device:\<close> and the
  error of the first fetch that fails, and the access points after it are not fetched.
  When every fetch succeeds, \<^verbatim>\<open>init\<close> returns a device whose registry holds exactly the
  paths of the list, each with the decoded result of the last fetch listed for it, and
  whose index holds exactly the paths and the hardware addresses of the list as keys:
  a path maps to the hardware address of its fetch and that address maps to the path,
  each as long as no later access point of the list writes the same key (so a path
  maps to the address of its last fetch, and an address to the last path that reports
  it).
\<close>

theorem init_fetches_all_or_aborts:
  assumes "base_init env = Inr aps" and "wpa_proxy env = None" and "BSSs env = Inr bss"
    and "getBSSs bss empty_locals = Inr l0"
  shows "(\<forall>pre p e post. aps = pre @ (p, Inl e) # post \<and> (\<forall>x\<in>set pre. \<exists>raw. snd x = Inr raw) \<longrightarrow>
            init env = Inl (Thrown (''Error creating wifi device: '' @ error_text e)))
       \<and> ((\<forall>x\<in>set aps. \<exists>raw. snd x = Inr raw) \<longrightarrow>
            (\<exists>device. init env = Inr device
               \<and> dom (snapshot_view device (get_accessPoints device)) = fst ` set aps
               \<and> (\<forall>p raw. map_of (rev aps) p = Some (Inr raw) \<longrightarrow>
                     snapshot_view device (get_accessPoints device) p = Some (decode_properties raw))
               \<and> (\<forall>p raw. (p, Inr raw) \<in> set aps \<longrightarrow>
                     p \<in> dom (accessPointPathMap device)
                   \<and> HwAddress raw \<in> dom (accessPointPathMap device))
               \<and> dom (accessPointPathMap device)
                   = fst ` set aps \<union> {HwAddress raw | p raw. (p, Inr raw) \<in> set aps}
               \<and> (\<forall>pre p raw post. aps = pre @ (p, Inr raw) # post \<longrightarrow>
                     (p \<notin> fst ` set post
                        \<and> (\<forall>x\<in>set post. \<forall>raw'. snd x = Inr raw' \<longrightarrow> HwAddress raw' \<noteq> p)
                      \<longrightarrow> accessPointPathMap device p = Some (HwAddress raw))
                   \<and> (HwAddress raw \<notin> fst ` set post
                        \<and> (\<forall>x\<in>set post. \<forall>raw'. snd x = Inr raw' \<longrightarrow> HwAddress raw' \<noteq> HwAddress raw)
                      \<longrightarrow> accessPointPathMap device (HwAddress raw) = Some p))))"
proof (intro conjI allI impI)
  fix pre p e post
  assume "aps = pre @ (p, Inl e) # post \<and> (\<forall>x\<in>set pre. \<exists>raw. snd x = Inr raw)"
  then have "getAccessPointDataFromPaths aps l0 = Inl e"
    by (simp add: getAccessPointDataFromPaths_first_failure)
  with assms show "init env = Inl (Thrown (''Error creating wifi device: '' @ error_text e))"
    by (simp add: init_def init_body_def)
next
  assume ok: "\<forall>x\<in>set aps. \<exists>raw. snd x = Inr raw"
  from getBSSs_keeps_access_points [OF assms(4)]
  have l0: "initialAccessPoints l0 = Map.empty" "initialAccessPointPathMap l0 = Map.empty"
    by (simp_all add: empty_locals_def)
  then have fresh: "\<forall>p r. initialAccessPoints l0 p = Some r \<longrightarrow> r < initial_next l0" by simp
  from getAccessPointDataFromPaths_all_fetched [OF ok fresh] obtain l' where l':
    "getAccessPointDataFromPaths aps l0 = Inr l'"
    "\<forall>p. initial_view l' p =
        (case map_of (rev aps) p of
           None \<Rightarrow> initial_view l0 p
         | Some (Inr raw) \<Rightarrow> Some (decode_properties raw)
         | Some (Inl e) \<Rightarrow> None)"
    "dom (initialAccessPointPathMap l')
       = dom (initialAccessPointPathMap l0) \<union> fst ` set aps
         \<union> {HwAddress raw | p raw. (p, Inr raw) \<in> set aps}"
    by blast
  have view0: "initial_view l0 p = None" for p
    by (simp add: initial_view_def l0)
  have init: "init env = Inr (new_WifiDevice l')"
    using assms l'(1) by (simp add: init_def init_body_def)
  have content: "initial_view l' p = Some (decode_properties raw)"
    if "map_of (rev aps) p = Some (Inr raw)" for p raw
    using that l'(2) by simp
  have "initial_view l' p \<noteq> None \<longleftrightarrow> p \<in> fst ` set aps" for p
  proof (cases "map_of (rev aps) p")
    case None
    then have "p \<notin> fst ` set aps"
      by (simp add: map_of_eq_None_iff)
    with None l'(2) view0 show ?thesis by simp
  next
    case (Some y)
    then have in_set: "(p, y) \<in> set aps" by (auto dest: map_of_SomeD)
    with ok obtain raw where "y = Inr raw" by force
    with Some l'(2) in_set show ?thesis by force
  qed
  then have dom_view: "dom (initial_view l') = fst ` set aps"
    by (auto simp: dom_def)
  have dom_index: "dom (initialAccessPointPathMap l')
      = fst ` set aps \<union> {HwAddress raw | p raw. (p, Inr raw) \<in> set aps}"
    unfolding l'(3) by (simp add: l0)
  have indexed: "p \<in> dom (initialAccessPointPathMap l') \<and> HwAddress raw \<in> dom (initialAccessPointPathMap l')"
    if "(p, Inr raw) \<in> set aps" for p raw
    using that unfolding l'(3) by force
  have index_at: "(p \<notin> fst ` set post \<and> (\<forall>x\<in>set post. \<forall>raw'. snd x = Inr raw' \<longrightarrow> HwAddress raw' \<noteq> p)
            \<longrightarrow> initialAccessPointPathMap l' p = Some (HwAddress raw))
       \<and> (HwAddress raw \<notin> fst ` set post
            \<and> (\<forall>x\<in>set post. \<forall>raw'. snd x = Inr raw' \<longrightarrow> HwAddress raw' \<noteq> HwAddress raw)
            \<longrightarrow> initialAccessPointPathMap l' (HwAddress raw) = Some p)"
    if "aps = pre @ (p, Inr raw) # post" for pre p raw post
    using l'(1) unfolding that by (rule getAccessPointDataFromPaths_index_values)
  have reg: "snapshot_view (new_WifiDevice l') (get_accessPoints (new_WifiDevice l')) = initial_view l'"
    and idx: "accessPointPathMap (new_WifiDevice l') = initialAccessPointPathMap l'"
    by (simp_all add: new_WifiDevice_registry)
  show "\<exists>device. init env = Inr device
               \<and> dom (snapshot_view device (get_accessPoints device)) = fst ` set aps
               \<and> (\<forall>p raw. map_of (rev aps) p = Some (Inr raw) \<longrightarrow>
                     snapshot_view device (get_accessPoints device) p = Some (decode_properties raw))
               \<and> (\<forall>p raw. (p, Inr raw) \<in> set aps \<longrightarrow>
                     p \<in> dom (accessPointPathMap device)
                   \<and> HwAddress raw \<in> dom (accessPointPathMap device))
               \<and> dom (accessPointPathMap device)
                   = fst ` set aps \<union> {HwAddress raw | p raw. (p, Inr raw) \<in> set aps}
               \<and> (\<forall>pre p raw post. aps = pre @ (p, Inr raw) # post \<longrightarrow>
                     (p \<notin> fst ` set post
                        \<and> (\<forall>x\<in>set post. \<forall>raw'. snd x = Inr raw' \<longrightarrow> HwAddress raw' \<noteq> p)
                      \<longrightarrow> accessPointPathMap device p = Some (HwAddress raw))
                   \<and> (HwAddress raw \<notin> fst ` set post
                        \<and> (\<forall>x\<in>set post. \<forall>raw'. snd x = Inr raw' \<longrightarrow> HwAddress raw' \<noteq> HwAddress raw)
                      \<longrightarrow> accessPointPathMap device (HwAddress raw) = Some p))"
  proof (intro exI conjI allI impI)
    show "init env = Inr (new_WifiDevice l')" by (rule init)
  qed (use dom_view content indexed dom_index index_at in \<open>simp_all add: reg idx\<close>)
qed

text \<open>
  The three bootstraps: the fetch that fails, the one access point of the specification
  (\<^verbatim>\<open>/ap/1\<close> and its address map to each other), and two paths with one address (the
  address maps to the path listed last).
\<close>

theorem init_fetches_all_or_aborts_witness:
  "base_init failing_env = Inr [(''/ap/1'', Inl (Thrown ''boom'')),
                                (''/ap/2'', Inr (example_ap ''AA:BB:CC:DD:EE:FF''))]
   \<and> init failing_env = Inl (Thrown ''Error creating wifi device: boom'')
   \<and> base_init home_env = Inr [(''/ap/1'', Inr (example_ap ''AA:BB:CC:DD:EE:FF''))]
   \<and> (\<exists>device. init home_env = Inr device
         \<and> dom (snapshot_view device (get_accessPoints device)) = {''/ap/1''}
         \<and> snapshot_view device (get_accessPoints device) ''/ap/1''
             = Some (decode_properties (example_ap ''AA:BB:CC:DD:EE:FF''))
         \<and> dom (accessPointPathMap device) = {''/ap/1'', ''AA:BB:CC:DD:EE:FF''}
         \<and> accessPointPathMap device ''/ap/1'' = Some ''AA:BB:CC:DD:EE:FF''
         \<and> accessPointPathMap device ''AA:BB:CC:DD:EE:FF'' = Some ''/ap/1'')
   \<and> base_init twin_env = Inr [(''/ap/1'', Inr (example_ap ''AA:BB:CC:DD:EE:FF'')),
                             (''/ap/2'', Inr (example_ap ''AA:BB:CC:DD:EE:FF''))]
   \<and> (\<exists>device. init twin_env = Inr device
         \<and> accessPointPathMap device ''/ap/1'' = Some ''AA:BB:CC:DD:EE:FF''
         \<and> accessPointPathMap device ''/ap/2'' = Some ''AA:BB:CC:DD:EE:FF''
         \<and> accessPointPathMap device ''AA:BB:CC:DD:EE:FF'' = Some ''/ap/2'')"
proof -
  define bss :: "(string \<times> (js_error + ClientInterface \<times> string)) list"
    where "bss = [(''/bss/1'', Inr (ClientInterface ''/bss/1'', ''AA:BB:CC:DD:EE:FF''))]"
  define ap where "ap = example_ap ''AA:BB:CC:DD:EE:FF''"
  define one :: "(string \<times> (js_error + RawAccessPointProperties)) list"
    where "one = [(''/ap/1'', Inr ap)]"
  define two :: "(string \<times> (js_error + RawAccessPointProperties)) list"
    where "two = [(''/ap/1'', Inr ap), (''/ap/2'', Inr ap)]"
  have hw: "HwAddress ap = ''AA:BB:CC:DD:EE:FF''" by (simp add: ap_def example_ap_def)
  obtain l0 where l0: "getBSSs bss empty_locals = Inr l0"
    by (simp add: bss_def)
  have f: "base_init failing_env = Inr ([] @ (''/ap/1'', Inl (Thrown ''boom'')) # [(''/ap/2'', Inr ap)])"
    "wpa_proxy failing_env = None" "BSSs failing_env = Inr bss"
    by (simp_all add: failing_env_def bss_def ap_def)
  have h: "base_init home_env = Inr one"
    "wpa_proxy home_env = None" "BSSs home_env = Inr bss"
    by (simp_all add: home_env_def bss_def ap_def one_def)
  have t: "base_init twin_env = Inr two"
    "wpa_proxy twin_env = None" "BSSs twin_env = Inr bss"
    by (simp_all add: twin_env_def bss_def ap_def two_def)
  have 1: "init failing_env = Inl (Thrown ''Error creating wifi device: boom'')"
    using init_fetches_all_or_aborts [OF f l0, THEN conjunct1, rule_format,
        of "[]" "''/ap/1''" "Thrown ''boom''" "[(''/ap/2'', Inr ap)]"]
    by simp
  have "\<exists>d. init home_env = Inr d
          \<and> dom (snapshot_view d (get_accessPoints d)) = fst ` set one
          \<and> (\<forall>p raw. map_of (rev one) p = Some (Inr raw) \<longrightarrow>
                snapshot_view d (get_accessPoints d) p = Some (decode_properties raw))
          \<and> (\<forall>p raw. (p, Inr raw) \<in> set one \<longrightarrow>
                p \<in> dom (accessPointPathMap d) \<and> HwAddress raw \<in> dom (accessPointPathMap d))
          \<and> dom (accessPointPathMap d)
              = fst ` set one
                \<union> {HwAddress raw | p raw. (p, Inr raw) \<in> set one}
          \<and> (\<forall>pre p raw post. one = pre @ (p, Inr raw) # post \<longrightarrow>
                (p \<notin> fst ` set post
                   \<and> (\<forall>x\<in>set post. \<forall>raw'. snd x = Inr raw' \<longrightarrow> HwAddress raw' \<noteq> p)
                 \<longrightarrow> accessPointPathMap d p = Some (HwAddress raw))
              \<and> (HwAddress raw \<notin> fst ` set post
                   \<and> (\<forall>x\<in>set post. \<forall>raw'. snd x = Inr raw' \<longrightarrow> HwAddress raw' \<noteq> HwAddress raw)
                 \<longrightarrow> accessPointPathMap d (HwAddress raw) = Some p))"
    by (rule init_fetches_all_or_aborts [OF h l0, THEN conjunct2, THEN mp]) (simp add: one_def)
  then obtain d where d1: "init home_env = Inr d"
    and d2: "dom (snapshot_view d (get_accessPoints d)) = fst ` set one"
    and d3: "\<forall>p raw. map_of (rev one) p = Some (Inr raw) \<longrightarrow>
                snapshot_view d (get_accessPoints d) p = Some (decode_properties raw)"
    and d5: "dom (accessPointPathMap d)
              = fst ` set one
                \<union> {HwAddress raw | p raw. (p, Inr raw) \<in> set one}"
    and d6: "\<forall>pre p raw post. one = pre @ (p, Inr raw) # post \<longrightarrow>
                (p \<notin> fst ` set post
                   \<and> (\<forall>x\<in>set post. \<forall>raw'. snd x = Inr raw' \<longrightarrow> HwAddress raw' \<noteq> p)
                 \<longrightarrow> accessPointPathMap d p = Some (HwAddress raw))
              \<and> (HwAddress raw \<notin> fst ` set post
                   \<and> (\<forall>x\<in>set post. \<forall>raw'. snd x = Inr raw' \<longrightarrow> HwAddress raw' \<noteq> HwAddress raw)
                 \<longrightarrow> accessPointPathMap d (HwAddress raw) = Some p)"
    by (elim exE conjE)
  from d6 [rule_format, of "[]" "''/ap/1''" ap "[]"]
  have dv: "accessPointPathMap d ''/ap/1'' = Some ''AA:BB:CC:DD:EE:FF''"
    "accessPointPathMap d ''AA:BB:CC:DD:EE:FF'' = Some ''/ap/1''"
    by (simp_all add: hw one_def)
  from d5 have dd: "dom (accessPointPathMap d) = {''/ap/1'', ''AA:BB:CC:DD:EE:FF''}"
    by (auto simp: hw one_def)
  from d2 have dr: "dom (snapshot_view d (get_accessPoints d)) = {''/ap/1''}"
    by (simp add: one_def)
  from d3 [rule_format, of "''/ap/1''" ap]
  have dc: "snapshot_view d (get_accessPoints d) ''/ap/1'' = Some (decode_properties ap)"
    by (simp add: one_def)
  from d1 dr dc dd dv
  have 2: "\<exists>device. init home_env = Inr device
         \<and> dom (snapshot_view device (get_accessPoints device)) = {''/ap/1''}
         \<and> snapshot_view device (get_accessPoints device) ''/ap/1''
             = Some (decode_properties (example_ap ''AA:BB:CC:DD:EE:FF''))
         \<and> dom (accessPointPathMap device) = {''/ap/1'', ''AA:BB:CC:DD:EE:FF''}
         \<and> accessPointPathMap device ''/ap/1'' = Some ''AA:BB:CC:DD:EE:FF''
         \<and> accessPointPathMap device ''AA:BB:CC:DD:EE:FF'' = Some ''/ap/1''"
    unfolding ap_def by blast
  have "\<exists>w. init twin_env = Inr w
          \<and> dom (snapshot_view w (get_accessPoints w))
              = fst ` set two
          \<and> (\<forall>p raw. map_of (rev two) p = Some (Inr raw) \<longrightarrow>
                snapshot_view w (get_accessPoints w) p = Some (decode_properties raw))
          \<and> (\<forall>p raw. (p, Inr raw) \<in> set two \<longrightarrow>
                p \<in> dom (accessPointPathMap w) \<and> HwAddress raw \<in> dom (accessPointPathMap w))
          \<and> dom (accessPointPathMap w)
              = fst ` set two
                \<union> {HwAddress raw | p raw. (p, Inr raw) \<in> set two}
          \<and> (\<forall>pre p raw post. two = pre @ (p, Inr raw) # post \<longrightarrow>
                (p \<notin> fst ` set post
                   \<and> (\<forall>x\<in>set post. \<forall>raw'. snd x = Inr raw' \<longrightarrow> HwAddress raw' \<noteq> p)
                 \<longrightarrow> accessPointPathMap w p = Some (HwAddress raw))
              \<and> (HwAddress raw \<notin> fst ` set post
                   \<and> (\<forall>x\<in>set post. \<forall>raw'. snd x = Inr raw' \<longrightarrow> HwAddress raw' \<noteq> HwAddress raw)
                 \<longrightarrow> accessPointPathMap w (HwAddress raw) = Some p))"
    by (rule init_fetches_all_or_aborts [OF t l0, THEN conjunct2, THEN mp]) (simp add: two_def)
  then obtain w where w1: "init twin_env = Inr w"
    and w6: "\<forall>pre p raw post. two = pre @ (p, Inr raw) # post \<longrightarrow>
                (p \<notin> fst ` set post
                   \<and> (\<forall>x\<in>set post. \<forall>raw'. snd x = Inr raw' \<longrightarrow> HwAddress raw' \<noteq> p)
                 \<longrightarrow> accessPointPathMap w p = Some (HwAddress raw))
              \<and> (HwAddress raw \<notin> fst ` set post
                   \<and> (\<forall>x\<in>set post. \<forall>raw'. snd x = Inr raw' \<longrightarrow> HwAddress raw' \<noteq> HwAddress raw)
                 \<longrightarrow> accessPointPathMap w (HwAddress raw) = Some p)"
    by (elim exE conjE)
  from w6 [rule_format, of "[]" "''/ap/1''" ap "[(''/ap/2'', Inr ap)]"]
  have wa: "accessPointPathMap w ''/ap/1'' = Some ''AA:BB:CC:DD:EE:FF''"
    by (simp add: hw two_def)
  from w6 [rule_format, of "[(''/ap/1'', Inr ap)]" "''/ap/2''" ap "[]"]
  have wb: "accessPointPathMap w ''/ap/2'' = Some ''AA:BB:CC:DD:EE:FF''"
    "accessPointPathMap w ''AA:BB:CC:DD:EE:FF'' = Some ''/ap/2''"
    by (simp_all add: hw two_def)
  from w1 wa wb
  have 3: "\<exists>device. init twin_env = Inr device
         \<and> accessPointPathMap device ''/ap/1'' = Some ''AA:BB:CC:DD:EE:FF''
         \<and> accessPointPathMap device ''/ap/2'' = Some ''AA:BB:CC:DD:EE:FF''
         \<and> accessPointPathMap device ''AA:BB:CC:DD:EE:FF'' = Some ''/ap/2''"
    by blast
  from f(1) h(1) t(1) have bases:
    "base_init failing_env = Inr [(''/ap/1'', Inl (Thrown ''boom'')),
                                  (''/ap/2'', Inr (example_ap ''AA:BB:CC:DD:EE:FF''))]"
    "base_init home_env = Inr [(''/ap/1'', Inr (example_ap ''AA:BB:CC:DD:EE:FF''))]"
    "base_init twin_env = Inr [(''/ap/1'', Inr (example_ap ''AA:BB:CC:DD:EE:FF'')),
                               (''/ap/2'', Inr (example_ap ''AA:BB:CC:DD:EE:FF''))]"
    by (simp_all add: ap_def one_def two_def)
  from bases 1 2 3 show ?thesis by (intro conjI)
qed

section \<open>Snapshots published by the handlers of the access points\<close>

text \<open>
  The store of a device made by \<^verbatim>\<open>init\<close> is in order and stays so under every signal.
\<close>

lemma listenForBssPropertyChanges_store:
  "accessPoints (listenForBssPropertyChanges bssid s) = accessPoints s
   \<and> map_heap (listenForBssPropertyChanges bssid s) = map_heap s
   \<and> accessPointsSubject (listenForBssPropertyChanges bssid s) = accessPointsSubject s
   \<and> next_addr (listenForBssPropertyChanges bssid s) = next_addr s"
  by (simp add: listenForBssPropertyChanges_def listenSignal_def split: option.splits)

lemma store_ok_cong:
  "accessPoints s' = accessPoints s \<Longrightarrow> map_heap s' = map_heap s
   \<Longrightarrow> accessPointsSubject s' = accessPointsSubject s \<Longrightarrow> next_addr s' = next_addr s
   \<Longrightarrow> store_ok s' = store_ok s"
  by (simp add: store_ok_def)

lemma store_ok_listenForBssPropertyChanges:
  "store_ok (listenForBssPropertyChanges bssid s) = store_ok s"
  by (rule store_ok_cong) (simp_all add: listenForBssPropertyChanges_store)

lemma store_ok_listenForBss: "store_ok (listenForBss s) = store_ok s"
proof -
  have "store_ok (foldl (\<lambda>s bssid. listenForBssPropertyChanges bssid s) s bs) = store_ok s" for bs
    by (induction bs arbitrary: s) (simp_all add: store_ok_listenForBssPropertyChanges)
  then show ?thesis by (simp add: listenForBss_def)
qed

lemma store_ok_new:
  "\<forall>p r. initialAccessPoints l p = Some r \<longrightarrow> r < initial_next l \<Longrightarrow> store_ok (new_WifiDevice l)"
  unfolding new_WifiDevice_def store_ok_listenForBss
  by (auto simp: store_ok_def less_Suc_eq)

lemma store_ok_AccessPointAdded:
  "store_ok s \<Longrightarrow> store_ok (on_AccessPointAdded apPath fetched s)"
  by (cases fetched)
    (auto simp: store_ok_def on_AccessPointAdded_def console_error_def Let_def less_Suc_eq
      split: if_splits)

lemma store_ok_AccessPointRemoved:
  "store_ok s \<Longrightarrow> store_ok (on_AccessPointRemoved apPath s)"
  by (auto simp: store_ok_def on_AccessPointRemoved_def Let_def less_Suc_eq split: if_splits)

lemma store_ok_step: "store_ok s \<Longrightarrow> store_ok (step e s)"
proof (cases e)
  case (AccessPointAdded apPath fetched)
  then show "store_ok s \<Longrightarrow> ?thesis" by (simp add: store_ok_AccessPointAdded)
next
  case (AccessPointRemoved apPath)
  then show "store_ok s \<Longrightarrow> ?thesis" by (simp add: store_ok_AccessPointRemoved)
next
  case (BSSAdded bssPath bssid proxy)
  then show "store_ok s \<Longrightarrow> ?thesis"
    by (cases proxy)
      (simp_all add: on_BSSAdded_def store_ok_listenForBssPropertyChanges,
       simp_all add: store_ok_def console_error_def)
next
  case (BSSRemoved bssPath)
  then show "store_ok s \<Longrightarrow> ?thesis"
    by (simp add: store_ok_def on_BSSRemoved_def unsubscribe_def Let_def split: option.splits)
next
  case (PropertiesChanged listenerRef params "file")
  have "only_records_and_console_differ s (snd (on_PropertiesChanged bssid params file s))" for bssid
    by (rule frame_on_PropertiesChanged)
  then have "store_ok (snd (on_PropertiesChanged bssid params file s)) = store_ok s" for bssid
    by (intro store_ok_cong) (simp_all add: only_records_and_console_differ_def)
  with PropertiesChanged show "store_ok s \<Longrightarrow> ?thesis"
    by (simp split: option.splits)
qed

lemma store_ok_run: "store_ok s \<Longrightarrow> store_ok (run events s)"
  unfolding run_def by (induction events arbitrary: s) (simp_all add: store_ok_step)

text \<open>
  The two handlers that C2 is right about. \<^verbatim>\<open>AccessPointAdded\<close> and
  \<^verbatim>\<open>AccessPointRemoved\<close> give the subject one new reference, to a map object that no
  subscriber holds yet, and every snapshot published before reads as it did.
\<close>

lemma AccessPointAdded_publishes_new_snapshot:
  assumes "store_ok s"
  shows "(let s' = on_AccessPointAdded apPath (Inr raw) s
          in accessPointsSubject s' = accessPointsSubject s @ [get_accessPoints s']
           \<and> get_accessPoints s' \<notin> set (accessPointsSubject s)
           \<and> (\<forall>a\<in>set (accessPointsSubject s). snapshot_view s' a = snapshot_view s a)
           \<and> snapshot_view s' (get_accessPoints s')
               = (snapshot_view s (get_accessPoints s))(apPath \<mapsto> decode_properties raw))"
proof -
  define s' where "s' = on_AccessPointAdded apPath (Inr raw) s"
  have fields: "accessPoints s' = Suc (next_addr s)"
    "accessPointsSubject s' = accessPointsSubject s @ [Suc (next_addr s)]"
    "map_heap s' = (map_heap s)(Suc (next_addr s) := (map_heap s (accessPoints s))(apPath \<mapsto> next_addr s))"
    "ap_heap s' = (ap_heap s)(next_addr s \<mapsto> decode_properties raw)"
    by (simp_all add: s'_def on_AccessPointAdded_def Let_def)
  from assms have below: "a < next_addr s" "map_heap s a p = Some r \<Longrightarrow> r < next_addr s"
    if "a \<in> set (accessPointsSubject s)" for a p r
    using that by (auto simp: store_ok_def)
  from assms have cur: "accessPoints s \<in> set (accessPointsSubject s)"
    by (simp add: store_ok_def)
  have new: "Suc (next_addr s) \<notin> set (accessPointsSubject s)"
    using below(1) by fastforce
  have old: "snapshot_view s' a = snapshot_view s a" if a: "a \<in> set (accessPointsSubject s)" for a
  proof (rule ext)
    fix p
    show "snapshot_view s' a p = snapshot_view s a p"
      using below [OF a] by (auto simp: snapshot_view_def fields split: option.splits)
  qed
  have cur': "snapshot_view s' (accessPoints s')
               = (snapshot_view s (accessPoints s))(apPath \<mapsto> decode_properties raw)"
  proof (rule ext)
    fix p
    show "snapshot_view s' (accessPoints s') p
            = ((snapshot_view s (accessPoints s))(apPath \<mapsto> decode_properties raw)) p"
      using below(2) [OF cur] by (auto simp: snapshot_view_def fields split: option.splits)
  qed
  from fields(1,2) new old cur' show ?thesis
    unfolding s'_def [symmetric] Let_def get_accessPoints_def by simp
qed

lemma AccessPointRemoved_publishes_new_snapshot:
  assumes "store_ok s"
  shows "(let s' = on_AccessPointRemoved apPath s
          in accessPointsSubject s' = accessPointsSubject s @ [get_accessPoints s']
           \<and> get_accessPoints s' \<notin> set (accessPointsSubject s)
           \<and> (\<forall>a\<in>set (accessPointsSubject s). snapshot_view s' a = snapshot_view s a))"
proof -
  define s' where "s' = on_AccessPointRemoved apPath s"
  have fields: "accessPoints s' = next_addr s"
    "accessPointsSubject s' = accessPointsSubject s @ [next_addr s]"
    "map_heap s' = (map_heap s)(next_addr s := (map_heap s (accessPoints s))(apPath := None))"
    "ap_heap s' = ap_heap s"
    by (simp_all add: s'_def on_AccessPointRemoved_def Let_def)
  from assms have below: "a < next_addr s" if "a \<in> set (accessPointsSubject s)" for a
    using that by (auto simp: store_ok_def)
  have new: "next_addr s \<notin> set (accessPointsSubject s)"
    using below by fastforce
  have old: "snapshot_view s' a = snapshot_view s a" if a: "a \<in> set (accessPointsSubject s)" for a
  proof -
    from below [OF a] have "a \<noteq> next_addr s" by simp
    then show ?thesis
      by (simp add: snapshot_view_def fields cong: option.case_cong)
  qed
  from fields(1,2) new old show ?thesis
    unfolding s'_def [symmetric] Let_def get_accessPoints_def by simp
qed

section \<open>Paths that were never added\<close>

text \<open>
  A path that no signal has added, and that no fetched access point has reported as its
  hardware address, is in neither the registry nor the index: the state in which the
  removal of that path changes nothing.
\<close>

lemma index_keys_step:
  "dom (accessPointPathMap (step e s)) \<subseteq> dom (accessPointPathMap s) \<union> added_keys e
   \<and> dom (map_heap (step e s) (accessPoints (step e s)))
        \<subseteq> dom (map_heap s (accessPoints s)) \<union> added_keys e"
proof (cases e)
  case (AccessPointAdded apPath fetched)
  then show ?thesis
    by (cases fetched) (auto simp: on_AccessPointAdded_def console_error_def Let_def split: if_splits)
next
  case (AccessPointRemoved apPath)
  then show ?thesis
    by (auto simp: on_AccessPointRemoved_def Let_def split: option.splits if_splits)
next
  case (BSSAdded bssPath bssid proxy)
  then show ?thesis
    by (cases proxy)
      (simp_all add: on_BSSAdded_def listenForBssPropertyChanges_registry console_error_def)
next
  case (BSSRemoved bssPath)
  then show ?thesis
    by (simp add: on_BSSRemoved_def unsubscribe_def Let_def split: option.splits)
next
  case (PropertiesChanged listenerRef params "file")
  have "only_records_and_console_differ s (snd (on_PropertiesChanged bssid params file s))" for bssid
    by (rule frame_on_PropertiesChanged)
  with PropertiesChanged show ?thesis
    by (auto simp: only_records_and_console_differ_def split: option.splits)
qed

lemma index_keys_run:
  "dom (accessPointPathMap (run events s)) \<subseteq> dom (accessPointPathMap s) \<union> \<Union> (added_keys ` set events)
   \<and> dom (map_heap (run events s) (accessPoints (run events s)))
        \<subseteq> dom (map_heap s (accessPoints s)) \<union> \<Union> (added_keys ` set events)"
proof (induction events arbitrary: s)
  case Nil
  show ?case by (simp add: run_def)
next
  case (Cons e events)
  have run: "run (e # events) s = run events (step e s)" by (simp add: run_def)
  from Cons [of "step e s"] index_keys_step [of e s] show ?case
    unfolding run by (intro conjI; simp; blast)
qed

lemma never_added_is_absent:
  assumes "p \<notin> \<Union> (added_keys ` set events)"
  shows "snapshot_view (run events (new_WifiDevice empty_locals))
           (get_accessPoints (run events (new_WifiDevice empty_locals))) p = None
       \<and> accessPointPathMap (run events (new_WifiDevice empty_locals)) p = None"
proof -
  have "dom (accessPointPathMap (new_WifiDevice empty_locals)) = {}"
    "dom (map_heap (new_WifiDevice empty_locals) (accessPoints (new_WifiDevice empty_locals))) = {}"
    by (simp_all add: new_WifiDevice_def listenForBss_registry empty_locals_def)
  with index_keys_run [of events "new_WifiDevice empty_locals"] assms
  have "p \<notin> dom (accessPointPathMap (run events (new_WifiDevice empty_locals)))"
    "p \<notin> dom (map_heap (run events (new_WifiDevice empty_locals))
                (accessPoints (run events (new_WifiDevice empty_locals))))"
    by auto
  then show ?thesis
    by (auto simp: snapshot_view_def get_accessPoints_def)
qed

end
